theory Spec2Isabelle
  imports Complex_Main
begin

section \<open>Data model\<close>

text \<open>
  The demo is a set of React components over the \<^verbatim>\<open>firestarter-sdk\<close> package.
  A JavaScript string is modelled as \<^typ>\<open>string\<close>, the contents of a
  \<^verbatim>\<open>File\<close>, \<^verbatim>\<open>Blob\<close> or \<^verbatim>\<open>Uint8Array\<close> as a list of
  byte values, an object with fields as a record, \<^verbatim>\<open>undefined\<close>/\<^verbatim>\<open>null\<close> as
  \<^term>\<open>None\<close>.
\<close>

type_synonym bytes = "nat list"

text \<open>\<^verbatim>\<open>PipeAccount\<close>: the identity bundle; the components read \<^verbatim>\<open>account.username\<close> only.\<close>

record PipeAccount =
  username :: string
  password :: string
  userId :: string
  userAppKey :: string

text \<open>\<^verbatim>\<open>UploadResult\<close>: the record kept in the local file index
  (\<^verbatim>\<open>file.fileId\<close>, \<^verbatim>\<open>file.fileName\<close>, \<^verbatim>\<open>file.size\<close>, \<^verbatim>\<open>file.uploadedAt\<close>).\<close>

record UploadResult =
  fileId :: string
  fileName :: string
  size' :: nat
  uploadedAt :: nat

record Balance =
  pipe :: nat
  sol :: nat
  publicKey :: string

record PublicLink =
  shareUrl :: string

text \<open>The browser \<^verbatim>\<open>File\<close> picked in the file input.\<close>

record File =
  name :: string
  contents :: bytes

text \<open>
  A thrown error: \<^verbatim>\<open>err.message\<close> and \<^verbatim>\<open>err.code\<close>, either of which may
  be absent. The four codes \<^verbatim>\<open>AuthCard\<close> names are constructors; \<open>OTHER_CODE c\<close> is
  any other code string \<open>c\<close>, the empty string included.
\<close>

datatype PipeErrorCode =
  USERNAME_EXISTS | INVALID_CREDENTIALS | UNAUTHORIZED | NETWORK_ERROR | OTHER_CODE string

record PipeError =
  message :: "string option"
  code :: "PipeErrorCode option"

text \<open>\<^verbatim>\<open>err.message || fallback\<close>: the fallback is taken when the message is absent or
  the empty string.\<close>

definition message_or :: "PipeError \<Rightarrow> string \<Rightarrow> string" where
  "message_or err fallback =
     (case message err of
        None \<Rightarrow> fallback
      | Some m \<Rightarrow> if m = [] then fallback else m)"

text \<open>
  \<^verbatim>\<open>PipeClient\<close> is the SDK's network client. Its calls are asynchronous and may
  reject; each is taken as a parameter that answers either with an error (\<^term>\<open>Inl\<close>) or
  with the result (\<^term>\<open>Inr\<close>). \<^verbatim>\<open>uploadProgress\<close> is the sequence of percentages the
  upload reports through \<^verbatim>\<open>onProgress\<close>.
\<close>

record PipeClient =
  login :: "string \<Rightarrow> string \<Rightarrow> PipeError + PipeAccount"
  createAccount :: "string \<Rightarrow> string \<Rightarrow> PipeError + PipeAccount"
  getBalance :: "PipeAccount \<Rightarrow> PipeError + Balance"
  uploadFile :: "PipeAccount \<Rightarrow> File \<Rightarrow> string \<Rightarrow> PipeError + UploadResult"
  uploadProgress :: "PipeAccount \<Rightarrow> File \<Rightarrow> nat list"
  downloadFile :: "PipeAccount \<Rightarrow> string \<Rightarrow> PipeError + bytes"
  deleteFile :: "PipeAccount \<Rightarrow> string \<Rightarrow> PipeError + unit"
  createPublicLink :: "PipeAccount \<Rightarrow> string \<Rightarrow> PipeError + PublicLink"

subsection \<open>Effects outside a component\<close>

text \<open>
  Everything a handler does to the world outside its own component state is appended to
  a log, in program order: the network calls it starts, the mutations of the persisted
  file index, the \<^verbatim>\<open>fileUploaded\<close> window event, alerts, console errors, object URLs
  created and revoked, the browser download, the persisted account.
\<close>

datatype remote_call =
    Login string string
  | CreateAccount string string
  | GetBalance PipeAccount
  | UploadFile PipeAccount File string
  | DownloadFile PipeAccount string
  | DeleteFile PipeAccount string
  | CreatePublicLink PipeAccount string

datatype event =
    Remote remote_call
  | IndexAdd string UploadResult
  | IndexRemove string string
  | Broadcast
  | Alert string
  | ConsoleError string PipeError
  | CreateObjectURL nat
  | RevokeObjectURL nat
  | SaveAs string nat
  | ResetFileInput
  | AccountSave PipeAccount
  | AccountClear

text \<open>
  The browser state shared by the components: \<^verbatim>\<open>localStorage\<close> (the file index
  entries by storage key, and the saved account), the object URLs that are created and
  not yet revoked, and the log.
\<close>

record World =
  localFiles :: "string \<Rightarrow> UploadResult list"
  savedAccount :: "PipeAccount option"
  nextUrl :: nat
  liveUrls :: "nat list"
  trace :: "event list"

definition emit :: "event list \<Rightarrow> World \<Rightarrow> World" where
  "emit es w = w\<lparr>trace := trace w @ es\<rparr>"

text \<open>The events a handler appended: those of \<open>w'\<close> after the ones \<open>w\<close> had.\<close>

definition events_since :: "World \<Rightarrow> World \<Rightarrow> event list" where
  "events_since w w' = drop (length (trace w)) (trace w')"

text \<open>\<open>a\<close> occurs in \<open>es\<close> and \<open>b\<close> occurs after the first \<open>a\<close>, not before it.\<close>

definition then_after :: "event \<Rightarrow> event \<Rightarrow> event list \<Rightarrow> bool" where
  "then_after a b es =
     (a \<in> set es \<and> b \<notin> set (takeWhile (\<lambda>e. e \<noteq> a) es)
      \<and> b \<in> set (dropWhile (\<lambda>e. e \<noteq> a) es))"

subsection \<open>PipeFileStorage\<close>

text \<open>
  Modelled from the spec: \<^verbatim>\<open>PipeFileStorage\<close> is a class of the SDK, not of this
  repository. An instance is its storage key; \<^verbatim>\<open>listFiles\<close> returns the persisted
  sequence in insertion order, \<^verbatim>\<open>addFile\<close> appends, \<^verbatim>\<open>removeFile\<close> removes the
  record with that id if present and is a no-op otherwise; every mutation is persisted
  before the call returns. The key of \<^verbatim>\<open>new PipeFileStorage()\<close> and the key
  \<^verbatim>\<open>PipeFileStorage.forAccount\<close> derives are parameters of the components that use
  them.
\<close>

type_synonym PipeFileStorage = string

definition listFiles :: "PipeFileStorage \<Rightarrow> World \<Rightarrow> UploadResult list" where
  "listFiles key w = localFiles w key"

definition addFile :: "PipeFileStorage \<Rightarrow> UploadResult \<Rightarrow> World \<Rightarrow> World" where
  "addFile key r w =
     w\<lparr>localFiles := (localFiles w)(key := localFiles w key @ [r]),
       trace := trace w @ [IndexAdd key r]\<rparr>"

definition removeFile :: "PipeFileStorage \<Rightarrow> string \<Rightarrow> World \<Rightarrow> World" where
  "removeFile key fid w =
     w\<lparr>localFiles := (localFiles w)(key := filter (\<lambda>f. fileId f \<noteq> fid) (localFiles w key)),
       trace := trace w @ [IndexRemove key fid]\<rparr>"

section \<open>UploadCard\<close>

record UploadCardState =
  uc_uploading :: bool
  uc_progress :: nat
  uc_error :: string
  uc_uploadedFile :: "UploadResult option"

text \<open>\<^verbatim>\<open>new PipeFileStorage(`firestarter_files_${account.username}`)\<close>\<close>

definition UploadCard_fileStorage :: "PipeAccount \<Rightarrow> PipeFileStorage" where
  "UploadCard_fileStorage account = ''firestarter_files_'' @ username account"

text \<open>
  \<^verbatim>\<open>handleFileSelect\<close>. \<open>picked\<close> is \<^verbatim>\<open>e.target.files?.[0]\<close>, \<open>inputMounted\<close>
  says whether \<^verbatim>\<open>fileInputRef.current\<close> is set. The \<^verbatim>\<open>try\<close> block is the
  \<^term>\<open>Inr\<close> branch, \<^verbatim>\<open>catch\<close> the \<^term>\<open>Inl\<close> branch, and \<^verbatim>\<open>finally\<close> closes
  both.
\<close>

definition UploadCard_handleFileSelect ::
  "PipeClient \<Rightarrow> PipeAccount \<Rightarrow> bool \<Rightarrow> File option
     \<Rightarrow> UploadCardState \<times> World \<Rightarrow> UploadCardState \<times> World" where
  "UploadCard_handleFileSelect client account inputMounted picked sw =
     (case picked of
        None \<Rightarrow> sw
      | Some file \<Rightarrow>
          (let (s, w) = sw;
               s1 = s\<lparr>uc_error := '''', uc_uploading := True, uc_progress := 0,
                      uc_uploadedFile := None\<rparr>;
               w1 = emit [Remote (UploadFile account file (name file))] w;
               s2 = s1\<lparr>uc_progress := last (0 # uploadProgress client account file)\<rparr>
           in case uploadFile client account file (name file) of
                Inr result \<Rightarrow>
                  (let w2 = addFile (UploadCard_fileStorage account) result w1;
                       s3 = s2\<lparr>uc_uploadedFile := Some result\<rparr>;
                       w3 = (if inputMounted then emit [ResetFileInput] w2 else w2);
                       w4 = emit [Broadcast] w3
                   in (s3\<lparr>uc_uploading := False\<rparr>, w4))
              | Inl err \<Rightarrow>
                  (s2\<lparr>uc_error := message_or err ''Upload failed'', uc_uploading := False\<rparr>,
                   w1)))"

section \<open>Balance, download and object URLs\<close>

text \<open>
  \<^verbatim>\<open>URL.createObjectURL(blob)\<close> hands out a fresh URL, which stays allocated until
  \<^verbatim>\<open>URL.revokeObjectURL(url)\<close>. URLs are numbered in the order of their creation.
\<close>

definition createObjectURL :: "bytes \<Rightarrow> World \<Rightarrow> nat \<times> World" where
  "createObjectURL blob w =
     (nextUrl w,
      w\<lparr>nextUrl := Suc (nextUrl w), liveUrls := liveUrls w @ [nextUrl w],
        trace := trace w @ [CreateObjectURL (nextUrl w)]\<rparr>)"

definition revokeObjectURL :: "nat \<Rightarrow> World \<Rightarrow> World" where
  "revokeObjectURL url w =
     w\<lparr>liveUrls := removeAll url (liveUrls w), trace := trace w @ [RevokeObjectURL url]\<rparr>"

text \<open>
  \<^verbatim>\<open>handleDownload\<close> has the same body in \<^verbatim>\<open>UploadsCard\<close> and
  \<^verbatim>\<open>FilesGallery\<close>: the component's \<^verbatim>\<open>downloading\<close> state is set to the file id and
  reset in \<^verbatim>\<open>finally\<close>; this is the part that acts on the world. The anchor click that
  saves the bytes is the event \<^term>\<open>SaveAs\<close>.
\<close>

definition download_and_save :: "PipeClient \<Rightarrow> PipeAccount \<Rightarrow> UploadResult \<Rightarrow> World \<Rightarrow> World" where
  "download_and_save client account file w =
     (let w1 = emit [Remote (DownloadFile account (fileName file))] w
      in case downloadFile client account (fileName file) of
           Inr blob \<Rightarrow>
             (let (url, w2) = createObjectURL blob w1;
                  w3 = emit [SaveAs (fileName file) url] w2
              in revokeObjectURL url w3)
         | Inl err \<Rightarrow> emit [Alert (message_or err ''Download failed'')] w1)"

section \<open>AccountCard\<close>

record AccountCardState =
  ac_balance :: "Balance option"
  ac_loadingBalance :: bool

text \<open>
  What the balance panel renders:
  \<^verbatim>\<open>loadingBalance ? 'Loading...' : balance ? (the balance) : 'Failed to load'\<close>.
  The same expression stands in \<^verbatim>\<open>AccountCard\<close> and in \<^verbatim>\<open>UploadsCard\<close>.
\<close>

datatype balance_panel = Loading | ShowsBalance Balance | FailedToLoad

definition balancePanel :: "bool \<Rightarrow> Balance option \<Rightarrow> balance_panel" where
  "balancePanel loadingBalance balance =
     (if loadingBalance then Loading
      else case balance of
             Some b \<Rightarrow> ShowsBalance b
           | None \<Rightarrow> FailedToLoad)"

definition AccountCard_balancePanel :: "AccountCardState \<Rightarrow> balance_panel" where
  "AccountCard_balancePanel s = balancePanel (ac_loadingBalance s) (ac_balance s)"

text \<open>\<^verbatim>\<open>loadBalance\<close>: \<^verbatim>\<open>try { setBalance(await client.getBalance(account)) }
  catch (err) { console.error('Failed to load balance:', err) }
  finally { setLoadingBalance(false) }\<close>\<close>

definition AccountCard_loadBalance ::
  "PipeClient \<Rightarrow> PipeAccount \<Rightarrow> AccountCardState \<times> World \<Rightarrow> AccountCardState \<times> World" where
  "AccountCard_loadBalance client account sw =
     (let (s, w) = sw;
          w1 = emit [Remote (GetBalance account)] w
      in case getBalance client account of
           Inr bal \<Rightarrow> (s\<lparr>ac_balance := Some bal, ac_loadingBalance := False\<rparr>, w1)
         | Inl err \<Rightarrow>
             (s\<lparr>ac_loadingBalance := False\<rparr>,
              emit [ConsoleError ''Failed to load balance:'' err] w1))"

section \<open>UploadsCard\<close>

record UploadsCardState =
  ups_files :: "UploadResult list"
  ups_balance :: "Balance option"
  ups_loadingBalance :: bool
  ups_selectedFile :: "UploadResult option"
  ups_downloading :: "string option"
  ups_shareLink :: string

text \<open>
  \<^verbatim>\<open>const fileStorage = new PipeFileStorage();\<close> at module level: one instance for
  the page, constructed without a key. \<open>defaultKey\<close> is the key the SDK gives such an
  instance; the account the component is rendered for does not enter.
\<close>

definition UploadsCard_fileStorage :: "string \<Rightarrow> PipeFileStorage" where
  "UploadsCard_fileStorage defaultKey = defaultKey"

definition UploadsCard_loadFiles ::
  "string \<Rightarrow> UploadsCardState \<times> World \<Rightarrow> UploadsCardState \<times> World" where
  "UploadsCard_loadFiles defaultKey sw =
     (let (s, w) = sw;
          storedFiles = listFiles (UploadsCard_fileStorage defaultKey) w
      in (s\<lparr>ups_files := storedFiles\<rparr>, w))"

definition UploadsCard_loadBalance ::
  "PipeClient \<Rightarrow> PipeAccount \<Rightarrow> UploadsCardState \<times> World \<Rightarrow> UploadsCardState \<times> World" where
  "UploadsCard_loadBalance client account sw =
     (let (s, w) = sw;
          w1 = emit [Remote (GetBalance account)] w
      in case getBalance client account of
           Inr bal \<Rightarrow> (s\<lparr>ups_balance := Some bal, ups_loadingBalance := False\<rparr>, w1)
         | Inl err \<Rightarrow>
             (s\<lparr>ups_loadingBalance := False\<rparr>,
              emit [ConsoleError ''Failed to load balance:'' err] w1))"

definition UploadsCard_balancePanel :: "UploadsCardState \<Rightarrow> balance_panel" where
  "UploadsCard_balancePanel s = balancePanel (ups_loadingBalance s) (ups_balance s)"

text \<open>The effect run when the component is rendered for \<open>account\<close>, and again by the
  \<^verbatim>\<open>fileUploaded\<close> listener: \<^verbatim>\<open>loadFiles(); loadBalance();\<close>\<close>

definition UploadsCard_handleFileUploaded ::
  "PipeClient \<Rightarrow> string \<Rightarrow> PipeAccount \<Rightarrow> UploadsCardState \<times> World
     \<Rightarrow> UploadsCardState \<times> World" where
  "UploadsCard_handleFileUploaded client defaultKey account sw =
     UploadsCard_loadBalance client account (UploadsCard_loadFiles defaultKey sw)"

definition UploadsCard_handleDownload ::
  "PipeClient \<Rightarrow> PipeAccount \<Rightarrow> UploadResult \<Rightarrow> UploadsCardState \<times> World
     \<Rightarrow> UploadsCardState \<times> World" where
  "UploadsCard_handleDownload client account file sw =
     (let (s, w) = sw;
          s1 = s\<lparr>ups_downloading := Some (fileId file)\<rparr>;
          w1 = download_and_save client account file w
      in (s1\<lparr>ups_downloading := None\<rparr>, w1))"

text \<open>\<^verbatim>\<open>handleDelete\<close>; \<open>confirmed\<close> is the answer to
  \<^verbatim>\<open>confirm(`Delete ${file.fileName}?`)\<close>.\<close>

definition UploadsCard_handleDelete ::
  "PipeClient \<Rightarrow> string \<Rightarrow> PipeAccount \<Rightarrow> bool \<Rightarrow> UploadResult
     \<Rightarrow> UploadsCardState \<times> World \<Rightarrow> UploadsCardState \<times> World" where
  "UploadsCard_handleDelete client defaultKey account confirmed file sw =
     (if \<not> confirmed then sw
      else
        (let (s, w) = sw;
             w1 = emit [Remote (DeleteFile account (fileId file))] w
         in case deleteFile client account (fileId file) of
              Inr u \<Rightarrow>
                (let w2 = removeFile (UploadsCard_fileStorage defaultKey) (fileId file) w1
                 in UploadsCard_loadBalance client account
                      (UploadsCard_loadFiles defaultKey (s, w2)))
            | Inl err \<Rightarrow> (s, emit [Alert (message_or err ''Delete failed'')] w1)))"

text \<open>\<^verbatim>\<open>generateShareLink\<close> of this component builds the link locally from
  \<^verbatim>\<open>window.location.origin\<close> and the file id; no network call.\<close>

definition UploadsCard_generateShareLink ::
  "string \<Rightarrow> UploadResult \<Rightarrow> UploadsCardState \<times> World \<Rightarrow> UploadsCardState \<times> World" where
  "UploadsCard_generateShareLink origin file sw =
     (let (s, w) = sw;
          s1 = s\<lparr>ups_selectedFile := Some file\<rparr>;
          link = origin @ ''/share/'' @ fileId file
      in (s1\<lparr>ups_shareLink := link\<rparr>, w))"

section \<open>FilesGallery\<close>

record FilesGalleryState =
  fg_files :: "UploadResult list"
  fg_downloading :: "string option"
  fg_selectedFile :: "UploadResult option"
  fg_shareLink :: string
  fg_linkCopied :: bool
  fg_imagePreviews :: "string \<rightharpoonup> nat"

text \<open>
  \<^verbatim>\<open>PipeFileStorage.forAccount(account)\<close>, memoised on \<^verbatim>\<open>account.username\<close>. The
  helper is the SDK's; the key it derives from the account is the parameter
  \<open>forAccount\<close>.
\<close>

definition FilesGallery_fileStorage ::
  "(PipeAccount \<Rightarrow> PipeFileStorage) \<Rightarrow> PipeAccount \<Rightarrow> PipeFileStorage" where
  "FilesGallery_fileStorage forAccount account = forAccount account"

subsection \<open>isImageFile\<close>

text \<open>
  \<^verbatim>\<open>toLowerCase\<close>. Characters are bytes here; the letters \<^verbatim>\<open>A\<close> to \<^verbatim>\<open>Z\<close> are
  mapped to \<^verbatim>\<open>a\<close> to \<^verbatim>\<open>z\<close> and every other byte is left as it is. The six image
  extensions are ASCII.
\<close>

definition toLowerCase_char :: "char \<Rightarrow> char" where
  "toLowerCase_char c =
     (let n = (of_char c :: nat)
      in if 65 \<le> n \<and> n \<le> 90 then char_of (n + 32) else c)"

definition toLowerCase :: "string \<Rightarrow> string" where
  "toLowerCase s = map toLowerCase_char s"

text \<open>\<^verbatim>\<open>s.split(sep)\<close> for a one-character separator: the segments between the
  separators, \<^verbatim>\<open>['']\<close> for the empty string.\<close>

fun split :: "char \<Rightarrow> string \<Rightarrow> string list" where
  "split sep [] = [[]]"
| "split sep (c # cs) =
     (if c = sep then [] # split sep cs
      else (case split sep cs of
              [] \<Rightarrow> [[c]]
            | seg # segs \<Rightarrow> (c # seg) # segs))"

text \<open>\<^verbatim>\<open>xs.pop()\<close>: the last element, \<^verbatim>\<open>undefined\<close> for the empty array.\<close>

definition pop :: "'a list \<Rightarrow> 'a option" where
  "pop xs = (if xs = [] then None else Some (last xs))"

definition isImageFile :: "string \<Rightarrow> bool" where
  "isImageFile filename =
     (let ext = pop (split CHR ''.'' (toLowerCase filename))
      in (case ext of None \<Rightarrow> [] | Some e \<Rightarrow> e)
           \<in> set [''jpg'', ''jpeg'', ''png'', ''gif'', ''webp'', ''svg''])"

subsection \<open>loadFiles\<close>

text \<open>
  The \<^verbatim>\<open>for (const file of storedFiles)\<close> loop of \<^verbatim>\<open>loadFiles\<close>, with its
  \<^verbatim>\<open>try\<close>/\<^verbatim>\<open>catch\<close> per file: the local \<^verbatim>\<open>previews\<close> object and the world are
  threaded through.
\<close>

fun loadPreviews ::
  "PipeClient \<Rightarrow> PipeAccount \<Rightarrow> UploadResult list \<Rightarrow> (string \<rightharpoonup> nat) \<times> World
     \<Rightarrow> (string \<rightharpoonup> nat) \<times> World" where
  "loadPreviews client account [] pw = pw"
| "loadPreviews client account (file # rest) pw =
     (let (previews, w) = pw
      in if isImageFile (fileName file) then
           (let w1 = emit [Remote (DownloadFile account (fileName file))] w
            in case downloadFile client account (fileName file) of
                 Inr uint8Array \<Rightarrow>
                   (let (url, w2) = createObjectURL uint8Array w1
                    in loadPreviews client account rest (previews(fileId file \<mapsto> url), w2))
               | Inl err \<Rightarrow>
                   loadPreviews client account rest
                     (previews,
                      emit [ConsoleError (''Failed to load preview for '' @ fileName file) err]
                        w1))
         else loadPreviews client account rest (previews, w))"

definition FilesGallery_loadFiles ::
  "PipeClient \<Rightarrow> (PipeAccount \<Rightarrow> PipeFileStorage) \<Rightarrow> PipeAccount
     \<Rightarrow> FilesGalleryState \<times> World \<Rightarrow> FilesGalleryState \<times> World" where
  "FilesGallery_loadFiles client forAccount account sw =
     (let (s, w) = sw;
          storedFiles = listFiles (FilesGallery_fileStorage forAccount account) w;
          s1 = s\<lparr>fg_files := storedFiles\<rparr>;
          (previews, w1) = loadPreviews client account storedFiles (Map.empty, w)
      in (s1\<lparr>fg_imagePreviews := previews\<rparr>, w1))"

subsection \<open>handleDownload, handleDelete, generateShareLink\<close>

definition FilesGallery_handleDownload ::
  "PipeClient \<Rightarrow> PipeAccount \<Rightarrow> UploadResult \<Rightarrow> FilesGalleryState \<times> World
     \<Rightarrow> FilesGalleryState \<times> World" where
  "FilesGallery_handleDownload client account file sw =
     (let (s, w) = sw;
          s1 = s\<lparr>fg_downloading := Some (fileId file)\<rparr>;
          w1 = download_and_save client account file w
      in (s1\<lparr>fg_downloading := None\<rparr>, w1))"

definition FilesGallery_handleDelete ::
  "PipeClient \<Rightarrow> (PipeAccount \<Rightarrow> PipeFileStorage) \<Rightarrow> PipeAccount \<Rightarrow> bool \<Rightarrow> UploadResult
     \<Rightarrow> FilesGalleryState \<times> World \<Rightarrow> FilesGalleryState \<times> World" where
  "FilesGallery_handleDelete client forAccount account confirmed file sw =
     (if \<not> confirmed then sw
      else
        (let (s, w) = sw;
             w1 = emit [Remote (DeleteFile account (fileName file))] w
         in case deleteFile client account (fileName file) of
              Inr u \<Rightarrow>
                (let w2 = removeFile (FilesGallery_fileStorage forAccount account)
                            (fileId file) w1;
                     w3 = (case fg_imagePreviews s (fileId file) of
                             Some url \<Rightarrow> revokeObjectURL url w2
                           | None \<Rightarrow> w2)
                 in FilesGallery_loadFiles client forAccount account (s, w3))
            | Inl err \<Rightarrow> (s, emit [Alert (message_or err ''Delete failed'')] w1)))"

definition FilesGallery_generateShareLink ::
  "PipeClient \<Rightarrow> PipeAccount \<Rightarrow> UploadResult \<Rightarrow> FilesGalleryState \<times> World
     \<Rightarrow> FilesGalleryState \<times> World" where
  "FilesGallery_generateShareLink client account file sw =
     (let (s, w) = sw;
          s1 = s\<lparr>fg_selectedFile := Some file, fg_linkCopied := False\<rparr>;
          w1 = emit [Remote (CreatePublicLink account (fileName file))] w
      in case createPublicLink client account (fileName file) of
           Inr publicLink \<Rightarrow> (s1\<lparr>fg_shareLink := shareUrl publicLink\<rparr>, w1)
         | Inl err \<Rightarrow>
             (s1\<lparr>fg_selectedFile := None\<rparr>,
              emit [Alert (message_or err ''Failed to create share link'')] w1))"

subsection \<open>formatFileSize\<close>

text \<open>
  The same function text stands in \<^verbatim>\<open>UploadCard\<close>, \<^verbatim>\<open>UploadsCard\<close> and
  \<^verbatim>\<open>FilesGallery\<close>. A JavaScript number is modelled as a real; a step whose IEEE
  result is not a finite number has no value here: \<^verbatim>\<open>Math.log(x)\<close> is
  \<^verbatim>\<open>-Infinity\<close> at 0 and \<^verbatim>\<open>NaN\<close> below. \<^verbatim>\<open>Math.round\<close> rounds halves up.
  \<^verbatim>\<open>sizes[i]\<close> outside the array is \<^verbatim>\<open>undefined\<close>, which the string concatenation
  prints. The conversion of a number to its decimal string is the parameter
  \<open>numberToString\<close>.
\<close>

definition Math_log :: "real \<Rightarrow> real option" where
  "Math_log x = (if 0 < x then Some (ln x) else None)"

definition Math_round :: "real \<Rightarrow> real" where
  "Math_round x = of_int \<lfloor>x + 1 / 2\<rfloor>"

definition sizes :: "string list" where
  "sizes = [''Bytes'', ''KB'', ''MB'', ''GB'']"

definition sizes_at :: "int \<Rightarrow> string" where
  "sizes_at i = (if 0 \<le> i \<and> i < int (length sizes) then sizes ! nat i else ''undefined'')"

text \<open>The branch after the guard: \<^verbatim>\<open>k\<close>, \<^verbatim>\<open>sizes\<close>, \<^verbatim>\<open>i\<close> and the returned string.\<close>

definition formatScaled :: "(real \<Rightarrow> string) \<Rightarrow> real \<Rightarrow> string option" where
  "formatScaled numberToString bytes =
     (let k = (1024 :: real)
      in case (Math_log bytes, Math_log k) of
           (Some lb, Some lk) \<Rightarrow>
             (let i = \<lfloor>lb / lk\<rfloor>
              in Some (numberToString (Math_round (bytes / power_int k i * 100) / 100)
                       @ '' '' @ sizes_at i))
         | _ \<Rightarrow> None)"

definition formatFileSize :: "(real \<Rightarrow> string) \<Rightarrow> real \<Rightarrow> string option" where
  "formatFileSize numberToString bytes =
     (if bytes = 0 then Some ''0 Bytes'' else formatScaled numberToString bytes)"

section \<open>App and AuthCard\<close>

text \<open>
  Modelled from the spec: \<^verbatim>\<open>PipeAccountStorage\<close> is a class of the SDK. It keeps one
  account; \<^verbatim>\<open>save\<close> overwrites it, \<^verbatim>\<open>clear\<close> removes it, \<^verbatim>\<open>load\<close> reads it.
\<close>

definition storage_load :: "World \<Rightarrow> PipeAccount option" where
  "storage_load w = savedAccount w"

definition storage_save :: "PipeAccount \<Rightarrow> World \<Rightarrow> World" where
  "storage_save acc w = w\<lparr>savedAccount := Some acc, trace := trace w @ [AccountSave acc]\<rparr>"

definition storage_clear :: "World \<Rightarrow> World" where
  "storage_clear w = w\<lparr>savedAccount := None, trace := trace w @ [AccountClear]\<rparr>"

text \<open>
  The \<^verbatim>\<open>App\<close> state is the active account. \<^verbatim>\<open>handleLogin\<close> and
  \<^verbatim>\<open>handleCreateAccount\<close> have no \<^verbatim>\<open>try\<close>: a rejection of the awaited call
  leaves the function at that line and is the first component of the result.
\<close>

type_synonym AppState = "PipeAccount option"

definition App_handleLogin ::
  "PipeClient \<Rightarrow> string \<Rightarrow> string \<Rightarrow> AppState \<times> World
     \<Rightarrow> PipeError option \<times> AppState \<times> World" where
  "App_handleLogin client user pass aw =
     (let (a, w) = aw;
          w1 = emit [Remote (Login user pass)] w
      in case login client user pass of
           Inr acc \<Rightarrow> (None, Some acc, storage_save acc w1)
         | Inl err \<Rightarrow> (Some err, a, w1))"

definition App_handleCreateAccount ::
  "PipeClient \<Rightarrow> string \<Rightarrow> string \<Rightarrow> AppState \<times> World
     \<Rightarrow> PipeError option \<times> AppState \<times> World" where
  "App_handleCreateAccount client user pass aw =
     (let (a, w) = aw;
          w1 = emit [Remote (CreateAccount user pass)] w
      in case createAccount client user pass of
           Inr acc \<Rightarrow> (None, Some acc, storage_save acc w1)
         | Inl err \<Rightarrow> (Some err, a, w1))"

definition App_handleLogout :: "AppState \<times> World \<Rightarrow> AppState \<times> World" where
  "App_handleLogout aw = (None, storage_clear (snd aw))"

text \<open>The result of the SDK's \<^verbatim>\<open>validateUsername\<close> and \<^verbatim>\<open>validatePassword\<close>; the two
  validators are parameters.\<close>

record Validation =
  valid :: bool
  error :: "string option"

record AuthCardState =
  au_loading :: bool
  au_error :: "string option"

text \<open>
  The message chosen in the \<^verbatim>\<open>catch\<close> block of \<^verbatim>\<open>handleSubmit\<close>.
  \<^verbatim>\<open>if (err.code)\<close> tests truthiness: an absent code and the empty string both keep
  the first \<^verbatim>\<open>errorMessage\<close>; any other code enters the \<^verbatim>\<open>switch\<close>, whose
  \<^verbatim>\<open>default\<close> case assigns \<^verbatim>\<open>err.message\<close> as it is.
\<close>

definition authErrorMessage :: "PipeError \<Rightarrow> string option" where
  "authErrorMessage err =
     (let errorMessage = Some (message_or err ''Authentication failed'')
      in case code err of
           None \<Rightarrow> errorMessage
         | Some USERNAME_EXISTS \<Rightarrow>
             Some ''Username already exists. Please try a different username or login instead.''
         | Some INVALID_CREDENTIALS \<Rightarrow>
             Some ''Invalid username or password. Please check your credentials.''
         | Some UNAUTHORIZED \<Rightarrow> Some ''Authentication failed. Please try again.''
         | Some NETWORK_ERROR \<Rightarrow>
             Some ''Network error. Please check your connection and try again.''
         | Some (OTHER_CODE c) \<Rightarrow> if c = [] then errorMessage else message err)"

text \<open>
  \<^verbatim>\<open>handleSubmit\<close>. \<open>onLogin\<close> and \<open>onCreate\<close> are the component's props, \<open>user\<close>,
  \<open>pass\<close> and \<open>isCreating\<close> its form state.
\<close>

definition AuthCard_handleSubmit ::
  "(string \<Rightarrow> Validation) \<Rightarrow> (string \<Rightarrow> Validation)
     \<Rightarrow> (string \<Rightarrow> string \<Rightarrow> AppState \<times> World \<Rightarrow> PipeError option \<times> AppState \<times> World)
     \<Rightarrow> (string \<Rightarrow> string \<Rightarrow> AppState \<times> World \<Rightarrow> PipeError option \<times> AppState \<times> World)
     \<Rightarrow> string \<Rightarrow> string \<Rightarrow> bool
     \<Rightarrow> AuthCardState \<times> AppState \<times> World \<Rightarrow> AuthCardState \<times> AppState \<times> World" where
  "AuthCard_handleSubmit validateUsername validatePassword onLogin onCreate user pass isCreating
       saw =
     (let (s, a, w) = saw;
          s1 = s\<lparr>au_error := Some []\<rparr>;
          usernameValidation = validateUsername user
      in if \<not> valid usernameValidation then (s1\<lparr>au_error := error usernameValidation\<rparr>, a, w)
         else
           (let passwordValidation = validatePassword pass
            in if \<not> valid passwordValidation
               then (s1\<lparr>au_error := error passwordValidation\<rparr>, a, w)
               else
                 (let s2 = s1\<lparr>au_loading := True\<rparr>;
                      (thrown, a', w') =
                        (if isCreating then onCreate user pass (a, w)
                         else onLogin user pass (a, w))
                  in case thrown of
                       None \<Rightarrow> (s2\<lparr>au_loading := False\<rparr>, a', w')
                     | Some err \<Rightarrow>
                         (s2\<lparr>au_error := authErrorMessage err, au_loading := False\<rparr>, a',
                          emit [ConsoleError ''Auth error:'' err] w'))))"

text \<open>\<^verbatim>\<open><AuthCard onLogin={handleLogin} onCreate={handleCreateAccount} />\<close>\<close>

definition App_AuthCard_handleSubmit ::
  "(string \<Rightarrow> Validation) \<Rightarrow> (string \<Rightarrow> Validation) \<Rightarrow> PipeClient
     \<Rightarrow> string \<Rightarrow> string \<Rightarrow> bool
     \<Rightarrow> AuthCardState \<times> AppState \<times> World \<Rightarrow> AuthCardState \<times> AppState \<times> World" where
  "App_AuthCard_handleSubmit validateUsername validatePassword client =
     AuthCard_handleSubmit validateUsername validatePassword
       (App_handleLogin client) (App_handleCreateAccount client)"

section \<open>Notions of the specification\<close>

text \<open>
  The filename extension, in the spec's words: the text after the last dot; a name
  without a dot has no extension. The image set is
  \<^verbatim>\<open>jpg, jpeg, png, gif, webp, svg\<close>, compared case-insensitively.
\<close>

definition extension :: "string \<Rightarrow> string option" where
  "extension filename =
     (if CHR ''.'' \<in> set filename
      then Some (rev (takeWhile (\<lambda>c. c \<noteq> CHR ''.'') (rev filename)))
      else None)"

definition image_extensions :: "string list" where
  "image_extensions = [''jpg'', ''jpeg'', ''png'', ''gif'', ''webp'', ''svg'']"

definition has_image_extension :: "string \<Rightarrow> bool" where
  "has_image_extension filename =
     (case extension filename of
        None \<Rightarrow> False
      | Some e \<Rightarrow> toLowerCase e \<in> set image_extensions)"

text \<open>The fetch of a record's bytes succeeds.\<close>

definition fetched :: "PipeClient \<Rightarrow> PipeAccount \<Rightarrow> UploadResult \<Rightarrow> bool" where
  "fetched client account file = (\<not> isl (downloadFile client account (fileName file)))"

text \<open>The events the preview loop can emit.\<close>

fun preview_event :: "event \<Rightarrow> bool" where
  "preview_event (Remote (DownloadFile a n)) = True"
| "preview_event (CreateObjectURL u) = True"
| "preview_event (ConsoleError t e) = True"
| "preview_event e = False"

text \<open>
  An error is surfaced to the user by an alert or by a non-empty text in the error state
  of the component; a console error is not.
\<close>

fun is_Alert :: "event \<Rightarrow> bool" where
  "is_Alert (Alert m) = True"
| "is_Alert e = False"

definition shown :: "string option \<Rightarrow> bool" where
  "shown m = (case m of None \<Rightarrow> False | Some t \<Rightarrow> t \<noteq> [])"

text \<open>The error codes the \<^verbatim>\<open>switch\<close> of \<^verbatim>\<open>AuthCard\<close> has a case for; an error
  whose code is absent or the empty string counts as known, since the \<^verbatim>\<open>switch\<close> is
  not entered for it.\<close>

fun known_code :: "PipeErrorCode option \<Rightarrow> bool" where
  "known_code (Some (OTHER_CODE c)) = (c = [])"
| "known_code c = True"

section \<open>Example inputs\<close>

text \<open>The inputs of the spec's scenarios: account \<^verbatim>\<open>alice123\<close>, a second account on
  the same device, the image \<^verbatim>\<open>photo.png\<close>, a client whose calls all succeed and one
  whose calls all fail.\<close>

definition alice :: PipeAccount where
  "alice = \<lparr>username = ''alice123'', password = ''Passw0rd!1'', userId = ''u1'',
            userAppKey = ''k1''\<rparr>"

definition bob :: PipeAccount where
  "bob = \<lparr>username = ''bob45678'', password = ''Passw0rd!2'', userId = ''u2'',
          userAppKey = ''k2''\<rparr>"

definition photo :: File where
  "photo = \<lparr>name = ''photo.png'', contents = [137, 80, 78, 71]\<rparr>"

definition photo_record :: UploadResult where
  "photo_record = \<lparr>fileId = ''id-1'', fileName = ''photo.png'', size' = 4, uploadedAt = 0\<rparr>"

definition network_down :: PipeError where
  "network_down = \<lparr>message = Some ''Network error'', code = Some NETWORK_ERROR\<rparr>"

definition ok_client :: PipeClient where
  "ok_client =
     \<lparr>login = (\<lambda>u p. Inr alice),
      createAccount = (\<lambda>u p. Inr alice),
      getBalance = (\<lambda>a. Inr \<lparr>pipe = 1, sol = 2, publicKey = ''pk''\<rparr>),
      uploadFile = (\<lambda>a f n. Inr photo_record),
      uploadProgress = (\<lambda>a f. [50, 100]),
      downloadFile = (\<lambda>a n. Inr [137, 80, 78, 71]),
      deleteFile = (\<lambda>a n. Inr ()),
      createPublicLink = (\<lambda>a n. Inr \<lparr>shareUrl = ''https://share/1''\<rparr>)\<rparr>"

definition failing_client :: PipeClient where
  "failing_client =
     \<lparr>login = (\<lambda>u p. Inl network_down),
      createAccount = (\<lambda>u p. Inl network_down),
      getBalance = (\<lambda>a. Inl network_down),
      uploadFile = (\<lambda>a f n. Inl network_down),
      uploadProgress = (\<lambda>a f. []),
      downloadFile = (\<lambda>a n. Inl network_down),
      deleteFile = (\<lambda>a n. Inl network_down),
      createPublicLink = (\<lambda>a n. Inl network_down)\<rparr>"

definition empty_world :: World where
  "empty_world =
     \<lparr>localFiles = (\<lambda>k. []), savedAccount = None, nextUrl = 0, liveUrls = [], trace = []\<rparr>"

definition idle_upload_card :: UploadCardState where
  "idle_upload_card =
     \<lparr>uc_uploading = False, uc_progress = 0, uc_error = [], uc_uploadedFile = None\<rparr>"

definition idle_gallery :: FilesGalleryState where
  "idle_gallery =
     \<lparr>fg_files = [], fg_downloading = None, fg_selectedFile = None, fg_shareLink = [],
      fg_linkCopied = False, fg_imagePreviews = Map.empty\<rparr>"

definition idle_account_card :: AccountCardState where
  "idle_account_card = \<lparr>ac_balance = None, ac_loadingBalance = True\<rparr>"

text \<open>The account card after its first balance query, answered by \<^term>\<open>ok_client\<close>.\<close>

definition loaded_account_card :: "AccountCardState \<times> World" where
  "loaded_account_card = AccountCard_loadBalance ok_client alice (idle_account_card, empty_world)"

definition idle_uploads_card :: UploadsCardState where
  "idle_uploads_card =
     \<lparr>ups_files = [], ups_balance = None, ups_loadingBalance = True, ups_selectedFile = None,
      ups_downloading = None, ups_shareLink = []\<rparr>"

definition idle_auth_card :: AuthCardState where
  "idle_auth_card = \<lparr>au_loading = False, au_error = Some []\<rparr>"

text \<open>The device after alice uploaded \<^verbatim>\<open>photo.png\<close> through \<^verbatim>\<open>UploadCard\<close>.\<close>

definition world_with_photo :: World where
  "world_with_photo =
     snd (UploadCard_handleFileSelect ok_client alice True (Some photo)
            (idle_upload_card, empty_world))"

text \<open>A client that answers every download with an error and everything else like
  \<^term>\<open>ok_client\<close>.\<close>

definition no_download_client :: PipeClient where
  "no_download_client = ok_client\<lparr>downloadFile := (\<lambda>a n. Inl network_down)\<rparr>"

text \<open>Validators that ask for eight characters or more, as the README states the rule.\<close>

definition eight_chars :: "string \<Rightarrow> string \<Rightarrow> Validation" where
  "eight_chars what s =
     (if 8 \<le> length s then \<lparr>valid = True, error = None\<rparr>
      else \<lparr>valid = False, error = Some (what @ '' must be at least 8 characters'')\<rparr>)"

definition broken_record :: UploadResult where
  "broken_record = \<lparr>fileId = ''id-2'', fileName = ''broken.png'', size' = 9, uploadedAt = 1\<rparr>"

definition flaky_client :: PipeClient where
  "flaky_client =
     ok_client\<lparr>downloadFile :=
       (\<lambda>a n. if n = ''broken.png'' then Inl network_down else Inr [137, 80, 78, 71])\<rparr>"

definition world_two_photos :: World where
  "world_two_photos =
     addFile (UploadCard_fileStorage alice) photo_record
       (addFile (UploadCard_fileStorage alice) broken_record empty_world)"

definition gallery_mounted :: "FilesGalleryState \<times> World" where
  "gallery_mounted =
     FilesGallery_loadFiles ok_client UploadCard_fileStorage alice (idle_gallery, world_with_photo)"

definition gallery_reloaded :: "FilesGalleryState \<times> World" where
  "gallery_reloaded =
     FilesGallery_loadFiles ok_client UploadCard_fileStorage alice gallery_mounted"

text \<open>Alice deletes \<^verbatim>\<open>photo.png\<close> in the gallery.\<close>

definition gallery_after_delete :: "FilesGalleryState \<times> World" where
  "gallery_after_delete =
     FilesGallery_handleDelete ok_client UploadCard_fileStorage alice True photo_record
       gallery_mounted"

text \<open>A device whose index entry under the SDK's default key holds one record.\<close>

definition shared_default_index :: "string \<Rightarrow> World" where
  "shared_default_index defaultKey =
     empty_world\<lparr>localFiles := (\<lambda>k. [])(defaultKey := [photo_record])\<rparr>"

section \<open>Auxiliary facts\<close>

subsection \<open>Strings\<close>

lemma split_not_Nil: "split d s \<noteq> []"
  by (induction s) (auto split: list.splits)

lemma length_split: "length (split d s) = Suc (length (filter (\<lambda>c. c = d) s))"
  by (induction s) (auto split: list.splits)

lemma split_no_sep: "d \<notin> set s \<Longrightarrow> split d s = [s]"
  by (induction s) (auto split: list.splits)

lemma last_split_append: "last (split d (xs @ d # ys)) = last (split d ys)"
proof (induction xs)
  case Nil
  show ?case by (simp add: split_not_Nil)
next
  case (Cons c xs)
  show ?case
  proof (cases "c = d")
    case True
    with Cons show ?thesis by (simp add: split_not_Nil)
  next
    case False
    obtain seg segs where sp: "split d (xs @ d # ys) = seg # segs"
      using split_not_Nil [of d "xs @ d # ys"] by (cases "split d (xs @ d # ys)") auto
    have "length (split d (xs @ d # ys)) \<ge> 2"
      by (simp add: length_split)
    with sp have "segs \<noteq> []" by auto
    with False sp Cons show ?thesis by simp
  qed
qed

lemma last_split: "last (split d s) = rev (takeWhile (\<lambda>c. c \<noteq> d) (rev s))"
proof (cases "d \<in> set s")
  case False
  then have a: "last (split d s) = s"
    by (simp add: split_no_sep)
  have b: "takeWhile (\<lambda>c. c \<noteq> d) (rev s) = rev s"
    using False by auto
  show ?thesis unfolding a b by simp
next
  case True
  then obtain xs ys where s: "s = xs @ d # ys" and n: "d \<notin> set ys"
    by (meson split_list_last)
  have "last (split d s) = ys"
    using n by (simp add: s last_split_append split_no_sep)
  moreover have "rev (takeWhile (\<lambda>c. c \<noteq> d) (rev s)) = ys"
    using n by (simp add: s takeWhile_append)
  ultimately show ?thesis by simp
qed

lemma toLowerCase_char_dot: "toLowerCase_char c = CHR ''.'' \<longleftrightarrow> c = CHR ''.''"
proof
  assume a: "toLowerCase_char c = CHR ''.''"
  show "c = CHR ''.''"
  proof (cases "65 \<le> (of_char c :: nat) \<and> (of_char c :: nat) \<le> 90")
    case False
    with a show ?thesis by (simp add: toLowerCase_char_def Let_def)
  next
    case True
    with a have "char_of ((of_char c :: nat) + 32) = CHR ''.''"
      by (simp add: toLowerCase_char_def Let_def)
    then have "(of_char (char_of ((of_char c :: nat) + 32)) :: nat) = of_char CHR ''.''"
      by simp
    then have "((of_char c :: nat) + 32) mod 256 = 46"
      by (simp only: of_char_of) simp
    with True show ?thesis by (simp add: mod_if)
  qed
next
  assume "c = CHR ''.''"
  then show "toLowerCase_char c = CHR ''.''"
    by (simp add: toLowerCase_char_def)
qed

subsection \<open>The world and the preview loop\<close>

lemma emit_fields:
  "trace (emit es w) = trace w @ es"
  "liveUrls (emit es w) = liveUrls w"
  "nextUrl (emit es w) = nextUrl w"
  "localFiles (emit es w) = localFiles w"
  "savedAccount (emit es w) = savedAccount w"
  by (simp_all add: emit_def)

lemma createObjectURL_fields:
  "fst (createObjectURL b w) = nextUrl w"
  "trace (snd (createObjectURL b w)) = trace w @ [CreateObjectURL (nextUrl w)]"
  "liveUrls (snd (createObjectURL b w)) = liveUrls w @ [nextUrl w]"
  "nextUrl (snd (createObjectURL b w)) = Suc (nextUrl w)"
  "localFiles (snd (createObjectURL b w)) = localFiles w"
  "savedAccount (snd (createObjectURL b w)) = savedAccount w"
  by (simp_all add: createObjectURL_def)

lemma loadPreviews_skip:
  "\<not> isImageFile (fileName f) \<Longrightarrow>
     loadPreviews client account (f # fs) (p, w) = loadPreviews client account fs (p, w)"
  by simp

lemma loadPreviews_failed:
  "isImageFile (fileName f) \<Longrightarrow> downloadFile client account (fileName f) = Inl err \<Longrightarrow>
     loadPreviews client account (f # fs) (p, w) =
       loadPreviews client account fs
         (p, emit [ConsoleError (''Failed to load preview for '' @ fileName f) err]
               (emit [Remote (DownloadFile account (fileName f))] w))"
  by (simp add: Let_def)

lemma loadPreviews_fetched:
  "isImageFile (fileName f) \<Longrightarrow> downloadFile client account (fileName f) = Inr b \<Longrightarrow>
     loadPreviews client account (f # fs) (p, w) =
       loadPreviews client account fs
         (p(fileId f \<mapsto> nextUrl w),
          snd (createObjectURL b (emit [Remote (DownloadFile account (fileName f))] w)))"
  by (simp add: Let_def split_def createObjectURL_fields emit_fields)

lemmas loadPreviews_steps = loadPreviews_skip loadPreviews_failed loadPreviews_fetched

lemma loadPreviews_cases:
  obtains "\<not> isImageFile (fileName f)"
  | err where "isImageFile (fileName f)" "downloadFile client account (fileName f) = Inl err"
  | b where "isImageFile (fileName f)" "downloadFile client account (fileName f) = Inr b"
  by (cases "downloadFile client account (fileName f)") auto

lemma loadPreviews_None:
  "fst (loadPreviews client account fs (p, w)) fid = None \<longleftrightarrow>
     p fid = None
     \<and> (\<forall>f \<in> set fs. fileId f = fid \<longrightarrow>
            \<not> (isImageFile (fileName f) \<and> fetched client account f))"
proof (induction fs arbitrary: p w)
  case Nil
  show ?case by simp
next
  case (Cons f fs)
  show ?case
  proof (cases rule: loadPreviews_cases [where f = f and client = client and account = account])
    case 1
    then show ?thesis by (auto simp: loadPreviews_skip Cons.IH simp del: loadPreviews.simps)
  next
    case (2 err)
    then show ?thesis
      by (auto simp: loadPreviews_failed Cons.IH fetched_def simp del: loadPreviews.simps)
  next
    case (3 b)
    then show ?thesis
      by (auto simp: loadPreviews_fetched Cons.IH fetched_def simp del: loadPreviews.simps)
  qed
qed

lemma loadPreviews_trace:
  "\<exists>es. trace (snd (loadPreviews client account fs (p, w))) = trace w @ es
        \<and> list_all preview_event es"
proof (induction fs arbitrary: p w)
  case Nil
  show ?case by simp
next
  case (Cons f fs)
  show ?case
  proof (cases rule: loadPreviews_cases [where f = f and client = client and account = account])
    case 1
    then show ?thesis using Cons.IH [of p w] by (simp add: loadPreviews_skip del: loadPreviews.simps)
  next
    case (2 err)
    let ?w' = "emit [ConsoleError (''Failed to load preview for '' @ fileName f) err]
               (emit [Remote (DownloadFile account (fileName f))] w)"
    obtain es where "trace (snd (loadPreviews client account fs (p, ?w'))) = trace ?w' @ es"
      and "list_all preview_event es"
      using Cons.IH by blast
    then show ?thesis by (simp add: loadPreviews_failed [OF 2] emit_fields del: loadPreviews.simps)
  next
    case (3 b)
    let ?w' = "snd (createObjectURL b (emit [Remote (DownloadFile account (fileName f))] w))"
    obtain es where "trace (snd (loadPreviews client account fs (p(fileId f \<mapsto> nextUrl w), ?w')))
         = trace ?w' @ es"
      and "list_all preview_event es"
      using Cons.IH by blast
    then show ?thesis
      by (simp add: loadPreviews_fetched [OF 3] emit_fields createObjectURL_fields
          del: loadPreviews.simps)
  qed
qed

lemma loadPreviews_localFiles:
  "localFiles (snd (loadPreviews client account fs (p, w))) = localFiles w"
proof (induction fs arbitrary: p w)
  case Nil
  show ?case by simp
next
  case (Cons f fs)
  show ?case
    by (cases rule: loadPreviews_cases [where f = f and client = client and account = account])
       (simp_all add: loadPreviews_steps Cons.IH emit_fields createObjectURL_fields
          del: loadPreviews.simps)
qed

lemma loadPreviews_liveUrls:
  "\<exists>us. liveUrls (snd (loadPreviews client account fs (p, w))) = liveUrls w @ us"
proof (induction fs arbitrary: p w)
  case Nil
  show ?case by simp
next
  case (Cons f fs)
  show ?case
  proof (cases rule: loadPreviews_cases [where f = f and client = client and account = account])
    case 1
    then show ?thesis using Cons.IH [of p w] by (simp add: loadPreviews_skip del: loadPreviews.simps)
  next
    case (2 err)
    let ?w' = "emit [ConsoleError (''Failed to load preview for '' @ fileName f) err]
               (emit [Remote (DownloadFile account (fileName f))] w)"
    obtain us where "liveUrls (snd (loadPreviews client account fs (p, ?w'))) = liveUrls ?w' @ us"
      using Cons.IH by blast
    then show ?thesis by (simp add: loadPreviews_failed [OF 2] emit_fields del: loadPreviews.simps)
  next
    case (3 b)
    let ?w' = "snd (createObjectURL b (emit [Remote (DownloadFile account (fileName f))] w))"
    obtain us where "liveUrls (snd (loadPreviews client account fs (p(fileId f \<mapsto> nextUrl w), ?w')))
         = liveUrls ?w' @ us"
      using Cons.IH by blast
    then show ?thesis
      by (simp add: loadPreviews_fetched [OF 3] emit_fields createObjectURL_fields
          del: loadPreviews.simps)
  qed
qed

lemma loadPreviews_live:
  assumes "fst (loadPreviews client account fs (p, w)) fid = Some u"
  shows "p fid = Some u \<or> u \<in> set (liveUrls (snd (loadPreviews client account fs (p, w))))"
  using assms
proof (induction fs arbitrary: p w)
  case Nil
  then show ?case by simp
next
  case (Cons f fs)
  show ?case
  proof (cases rule: loadPreviews_cases [where f = f and client = client and account = account])
    case 1
    with Cons show ?thesis by (simp add: loadPreviews_skip del: loadPreviews.simps)
  next
    case (2 err)
    with Cons show ?thesis by (simp add: loadPreviews_failed del: loadPreviews.simps)
  next
    case (3 b)
    let ?p' = "p(fileId f \<mapsto> nextUrl w)"
    let ?w2 = "snd (createObjectURL b (emit [Remote (DownloadFile account (fileName f))] w))"
    note eq = loadPreviews_fetched [OF 3, of fs p w]
    from Cons.prems have "fst (loadPreviews client account fs (?p', ?w2)) fid = Some u"
      by (simp only: eq)
    from Cons.IH [OF this]
    have d: "?p' fid = Some u \<or> u \<in> set (liveUrls (snd (loadPreviews client account fs (?p', ?w2))))" .
    obtain us where us: "liveUrls (snd (loadPreviews client account fs (?p', ?w2))) = liveUrls ?w2 @ us"
      using loadPreviews_liveUrls by blast
    have "nextUrl w \<in> set (liveUrls (snd (loadPreviews client account fs (?p', ?w2))))"
      by (simp add: us createObjectURL_fields emit_fields)
    with d show ?thesis unfolding eq by (auto split: if_splits)
  qed
qed

lemma events_since_earlier:
  assumes "trace w' = trace w @ xs" "e \<in> set (events_since w' w'')"
  shows "e \<in> set (events_since w w'')"
proof -
  have "set (drop (length (trace w')) (trace w'')) \<subseteq> set (drop (length (trace w)) (trace w''))"
    by (rule set_drop_subset_set_drop) (simp add: assms(1))
  with assms(2) show ?thesis by (auto simp: events_since_def)
qed

lemma events_since_appended:
  assumes "trace w'' = trace w' @ es" "trace w' = trace w @ xs" "e \<in> set xs"
  shows "e \<in> set (events_since w w'')"
  using assms by (simp add: events_since_def)

lemma loadPreviews_failure_logged:
  assumes "f \<in> set fs" "isImageFile (fileName f)"
    "downloadFile client account (fileName f) = Inl err"
  shows "ConsoleError (''Failed to load preview for '' @ fileName f) err
           \<in> set (events_since w (snd (loadPreviews client account fs (p, w))))"
  using assms
proof (induction fs arbitrary: p w)
  case Nil
  then show ?case by simp
next
  case (Cons g fs)
  let ?e = "ConsoleError (''Failed to load preview for '' @ fileName f) err"
  show ?case
  proof (cases "g = f")
    case True
    let ?w' = "emit [ConsoleError (''Failed to load preview for '' @ fileName f) err]
               (emit [Remote (DownloadFile account (fileName f))] w)"
    have eq: "loadPreviews client account (g # fs) (p, w) = loadPreviews client account fs (p, ?w')"
      unfolding True using Cons.prems(2,3) by (rule loadPreviews_failed)
    obtain es where es: "trace (snd (loadPreviews client account fs (p, ?w'))) = trace ?w' @ es"
      using loadPreviews_trace by blast
    have "trace ?w' = trace w @ [Remote (DownloadFile account (fileName f)), ?e]"
      by (simp add: emit_fields)
    from events_since_appended [OF es this, of ?e] show ?thesis
      unfolding eq by simp
  next
    case False
    with Cons.prems have mem: "f \<in> set fs" by simp
    note ih = Cons.IH [OF mem Cons.prems(2,3)]
    show ?thesis
    proof (cases rule: loadPreviews_cases [where f = g and client = client and account = account])
      case 1
      then show ?thesis using ih [of w p]
        by (simp add: loadPreviews_skip del: loadPreviews.simps)
    next
      case (2 err')
      let ?w' = "emit [ConsoleError (''Failed to load preview for '' @ fileName g) err']
               (emit [Remote (DownloadFile account (fileName g))] w)"
      have "trace ?w' = trace w @ [Remote (DownloadFile account (fileName g)),
            ConsoleError (''Failed to load preview for '' @ fileName g) err']"
        by (simp add: emit_fields)
      from events_since_earlier [OF this ih [of ?w' p]] show ?thesis
        unfolding loadPreviews_failed [OF 2] .
    next
      case (3 b)
      let ?w' = "snd (createObjectURL b (emit [Remote (DownloadFile account (fileName g))] w))"
      have "trace ?w' = trace w @ [Remote (DownloadFile account (fileName g)),
            CreateObjectURL (nextUrl w)]"
        by (simp add: emit_fields createObjectURL_fields)
      from events_since_earlier [OF this ih [of ?w' "p(fileId g \<mapsto> nextUrl w)"]] show ?thesis
        unfolding loadPreviews_fetched [OF 3] .
    qed
  qed
qed

subsection \<open>isImageFile and loadFiles\<close>

lemma extension_toLowerCase:
  "rev (takeWhile (\<lambda>c. c \<noteq> CHR ''.'') (rev (toLowerCase s)))
     = toLowerCase (rev (takeWhile (\<lambda>c. c \<noteq> CHR ''.'') (rev s)))"
proof -
  have "takeWhile (\<lambda>c. c \<noteq> CHR ''.'') (map toLowerCase_char (rev s))
      = map toLowerCase_char (takeWhile (\<lambda>c. c \<noteq> CHR ''.'') (rev s))"
    by (simp add: takeWhile_map comp_def toLowerCase_char_dot)
  then show ?thesis
    by (simp add: toLowerCase_def rev_map)
qed

lemma isImageFile_last_segment:
  "isImageFile filename \<longleftrightarrow>
     toLowerCase (rev (takeWhile (\<lambda>c. c \<noteq> CHR ''.'') (rev filename))) \<in> set image_extensions"
  unfolding isImageFile_def pop_def Let_def image_extensions_def
  by (simp only: split_not_Nil if_False option.case last_split extension_toLowerCase)

lemma isImageFile_has_image_extension:
  "CHR ''.'' \<in> set filename \<Longrightarrow> isImageFile filename \<longleftrightarrow> has_image_extension filename"
  by (simp add: isImageFile_last_segment has_image_extension_def extension_def)

lemma isImageFile_no_dot:
  "CHR ''.'' \<notin> set filename \<Longrightarrow> isImageFile filename \<longleftrightarrow> toLowerCase filename \<in> set image_extensions"
proof -
  assume "CHR ''.'' \<notin> set filename"
  then have "takeWhile (\<lambda>c. c \<noteq> CHR ''.'') (rev filename) = rev filename"
    by auto
  then show ?thesis by (simp only: isImageFile_last_segment rev_rev_ident)
qed

lemma FilesGallery_loadFiles_eq:
  "FilesGallery_loadFiles client forAccount account (s, w) =
     (s\<lparr>fg_files := listFiles (forAccount account) w,
        fg_imagePreviews :=
          fst (loadPreviews client account (listFiles (forAccount account) w) (Map.empty, w))\<rparr>,
      snd (loadPreviews client account (listFiles (forAccount account) w) (Map.empty, w)))"
  by (simp add: FilesGallery_loadFiles_def FilesGallery_fileStorage_def Let_def split_def)

lemma preview_events_no_Alert:
  "list_all preview_event es \<Longrightarrow> \<not> list_ex is_Alert es"
  by (induction es) (auto elim: preview_event.elims)

lemma preview_events_no_others:
  assumes "list_all preview_event es"
  shows "Broadcast \<notin> set es" "RevokeObjectURL u \<notin> set es"
    "IndexAdd k r \<notin> set es" "IndexRemove k i \<notin> set es"
  using assms by (auto simp: list_all_iff)

lemma removeFile_fields:
  "trace (removeFile key fid w) = trace w @ [IndexRemove key fid]"
  "liveUrls (removeFile key fid w) = liveUrls w"
  "nextUrl (removeFile key fid w) = nextUrl w"
  "localFiles (removeFile key fid w) =
     (localFiles w)(key := filter (\<lambda>f. fileId f \<noteq> fid) (localFiles w key))"
  "savedAccount (removeFile key fid w) = savedAccount w"
  by (simp_all add: removeFile_def)

lemma revokeObjectURL_fields:
  "trace (revokeObjectURL u w) = trace w @ [RevokeObjectURL u]"
  "liveUrls (revokeObjectURL u w) = removeAll u (liveUrls w)"
  "nextUrl (revokeObjectURL u w) = nextUrl w"
  "localFiles (revokeObjectURL u w) = localFiles w"
  "savedAccount (revokeObjectURL u w) = savedAccount w"
  by (simp_all add: revokeObjectURL_def)

lemma FilesGallery_loadFiles_trace:
  "\<exists>es. trace (snd (FilesGallery_loadFiles client forAccount account (s, w))) = trace w @ es
        \<and> list_all preview_event es"
  by (simp add: FilesGallery_loadFiles_eq loadPreviews_trace)

lemma FilesGallery_loadFiles_files:
  "fg_files (fst (FilesGallery_loadFiles client forAccount account (s, w)))
     = listFiles (forAccount account) (snd (FilesGallery_loadFiles client forAccount account (s, w)))"
  by (simp add: FilesGallery_loadFiles_eq listFiles_def loadPreviews_localFiles)

subsection \<open>The delete handlers\<close>

lemma FilesGallery_handleDelete_ok:
  assumes "deleteFile client account (fileName r) = Inr u"
  shows "FilesGallery_handleDelete client forAccount account True r (g, w) =
           FilesGallery_loadFiles client forAccount account
             (g, (case fg_imagePreviews g (fileId r) of
                    Some url \<Rightarrow> revokeObjectURL url
                      (removeFile (forAccount account) (fileId r)
                        (emit [Remote (DeleteFile account (fileName r))] w))
                  | None \<Rightarrow> removeFile (forAccount account) (fileId r)
                        (emit [Remote (DeleteFile account (fileName r))] w)))"
  using assms
  by (simp add: FilesGallery_handleDelete_def FilesGallery_fileStorage_def Let_def)

lemma FilesGallery_handleDelete_trace:
  assumes "deleteFile client account (fileName r) = Inr u"
  shows "\<exists>es. events_since w (snd (FilesGallery_handleDelete client forAccount account True r (g, w)))
            = [Remote (DeleteFile account (fileName r)),
               IndexRemove (forAccount account) (fileId r)] @ es
          \<and> Broadcast \<notin> set es"
proof -
  let ?w2 = "removeFile (forAccount account) (fileId r)
                        (emit [Remote (DeleteFile account (fileName r))] w)"
  let ?w3 = "case fg_imagePreviews g (fileId r) of
               Some url \<Rightarrow> revokeObjectURL url ?w2 | None \<Rightarrow> ?w2"
  obtain es where es: "trace (snd (FilesGallery_loadFiles client forAccount account (g, ?w3)))
      = trace ?w3 @ es" "list_all preview_event es"
    using FilesGallery_loadFiles_trace by blast
  have nb: "Broadcast \<notin> set es"
    using es(2) by (rule preview_events_no_others)
  show ?thesis
  proof (cases "fg_imagePreviews g (fileId r)")
    case None
    with es nb show ?thesis
      by (simp add: FilesGallery_handleDelete_ok [OF assms] events_since_def
          removeFile_fields emit_fields)
  next
    case (Some url)
    with es nb show ?thesis
      by (simp add: FilesGallery_handleDelete_ok [OF assms] events_since_def
          removeFile_fields emit_fields revokeObjectURL_fields)
  qed
qed

lemma FilesGallery_handleDelete_index:
  assumes "deleteFile client account (fileName r) = Inr u"
  shows "localFiles (snd (FilesGallery_handleDelete client forAccount account True r (g, w)))
           = (localFiles w)(forAccount account :=
                filter (\<lambda>f. fileId f \<noteq> fileId r) (listFiles (forAccount account) w))"
  by (cases "fg_imagePreviews g (fileId r)")
     (simp_all add: FilesGallery_handleDelete_ok [OF assms] FilesGallery_loadFiles_eq
        loadPreviews_localFiles removeFile_fields revokeObjectURL_fields emit_fields
        listFiles_def)

lemma UploadsCard_loadBalance_world:
  "snd (UploadsCard_loadBalance client account (s, w)) =
     (case getBalance client account of
        Inr bal \<Rightarrow> emit [Remote (GetBalance account)] w
      | Inl err \<Rightarrow> emit [ConsoleError ''Failed to load balance:'' err]
                    (emit [Remote (GetBalance account)] w))"
  by (simp add: UploadsCard_loadBalance_def Let_def split: sum.splits)

lemma UploadsCard_loadBalance_files:
  "ups_files (fst (UploadsCard_loadBalance client account (s, w))) = ups_files s"
  by (simp add: UploadsCard_loadBalance_def Let_def split: sum.splits)

lemma UploadsCard_handleDelete_ok:
  assumes "deleteFile client account (fileId r) = Inr u"
  shows "UploadsCard_handleDelete client defaultKey account True r (s, w) =
           UploadsCard_loadBalance client account
             (s\<lparr>ups_files := filter (\<lambda>f. fileId f \<noteq> fileId r) (listFiles defaultKey w)\<rparr>,
              removeFile defaultKey (fileId r)
                (emit [Remote (DeleteFile account (fileId r))] w))"
  using assms
  by (simp add: UploadsCard_handleDelete_def UploadsCard_fileStorage_def Let_def
      UploadsCard_loadFiles_def listFiles_def removeFile_fields emit_fields)

lemma UploadsCard_handleDelete_trace:
  assumes "deleteFile client account (fileId r) = Inr u"
  shows "\<exists>es. events_since w (snd (UploadsCard_handleDelete client defaultKey account True r (s, w)))
            = [Remote (DeleteFile account (fileId r)), IndexRemove defaultKey (fileId r)] @ es
          \<and> Broadcast \<notin> set es"
  by (cases "getBalance client account")
     (simp_all add: UploadsCard_handleDelete_ok [OF assms] UploadsCard_loadBalance_world
        events_since_def removeFile_fields emit_fields)

subsection \<open>handleSubmit\<close>

lemma AuthCard_handleSubmit_invalid:
  assumes "\<not> valid (validateUsername user) \<or> \<not> valid (validatePassword pass)"
  shows "AuthCard_handleSubmit validateUsername validatePassword onLogin onCreate user pass
            isCreating (s, a, w)
         = (s\<lparr>au_error := (if \<not> valid (validateUsername user)
                             then error (validateUsername user)
                             else error (validatePassword pass))\<rparr>, a, w)"
  using assms by (auto simp: AuthCard_handleSubmit_def Let_def)

lemma AuthCard_handleSubmit_valid:
  assumes "valid (validateUsername user)" "valid (validatePassword pass)"
  shows "AuthCard_handleSubmit validateUsername validatePassword onLogin onCreate user pass
            isCreating (s, a, w)
         = (let (thrown, a', w') =
                  (if isCreating then onCreate user pass (a, w) else onLogin user pass (a, w))
            in case thrown of
                 None \<Rightarrow> (s\<lparr>au_error := Some [], au_loading := False\<rparr>, a', w')
               | Some err \<Rightarrow>
                   (s\<lparr>au_error := authErrorMessage err, au_loading := False\<rparr>, a',
                    emit [ConsoleError ''Auth error:'' err] w'))"
  using assms by (simp add: AuthCard_handleSubmit_def Let_def split_def split: option.splits)

lemma valid_submit_calls_remote:
  assumes "valid (validateUsername user)" "valid (validatePassword pass)"
  shows "hd (events_since w (snd (snd (App_AuthCard_handleSubmit validateUsername
            validatePassword client user pass isCreating (s, a, w)))))
         = Remote (if isCreating then CreateAccount user pass else Login user pass)"
  using assms
  by (simp add: App_AuthCard_handleSubmit_def AuthCard_handleSubmit_valid App_handleLogin_def
      App_handleCreateAccount_def Let_def events_since_def emit_def storage_save_def
      split: sum.splits option.splits)

subsection \<open>formatFileSize\<close>

lemma Math_log_1024: "Math_log 1024 = Some (ln 1024)"
  by (simp add: Math_log_def)

lemma formatScaled_positive:
  "0 < bytes \<Longrightarrow>
     formatScaled numberToString bytes =
       Some (numberToString
               (Math_round (bytes / power_int 1024 \<lfloor>ln bytes / ln 1024\<rfloor> * 100) / 100)
             @ '' '' @ sizes_at \<lfloor>ln bytes / ln 1024\<rfloor>)"
  by (simp add: formatScaled_def Math_log_def Let_def)

lemma formatScaled_zero: "formatScaled numberToString 0 = None"
  by (simp add: formatScaled_def Math_log_def)

lemma formatFileSize_1024:
  "formatFileSize numberToString 1024 = Some (numberToString 1 @ '' KB'')"
proof -
  have "ln (1024 :: real) \<noteq> 0" by simp
  then have i: "\<lfloor>ln (1024 :: real) / ln 1024\<rfloor> = 1" by simp
  have r: "Math_round 100 = 100"
    by (simp add: Math_round_def)
  show ?thesis
    by (simp add: formatFileSize_def formatScaled_positive i r sizes_at_def sizes_def)
qed

subsection \<open>Rejected remote calls\<close>

lemma message_or_nonempty: "fallback \<noteq> [] \<Longrightarrow> message_or err fallback \<noteq> []"
  by (simp add: message_or_def split: option.splits)

lemma authErrorMessage_shown:
  "shown (message err) \<or> known_code (code err) \<Longrightarrow> shown (authErrorMessage err)"
  by (cases "code err" rule: known_code.cases)
     (auto simp: authErrorMessage_def shown_def message_or_def Let_def split: option.splits)

lemma login_error_surfaced:
  assumes "valid (validateUsername user)" "valid (validatePassword pass)"
    and "login client user pass = Inl err"
  shows "au_error (fst (App_AuthCard_handleSubmit validateUsername validatePassword client
            user pass False (s, a, w))) = authErrorMessage err"
  using assms
  by (simp add: App_AuthCard_handleSubmit_def AuthCard_handleSubmit_valid App_handleLogin_def
      Let_def)

lemma create_error_surfaced:
  assumes "valid (validateUsername user)" "valid (validatePassword pass)"
    and "createAccount client user pass = Inl err"
  shows "au_error (fst (App_AuthCard_handleSubmit validateUsername validatePassword client
            user pass True (s, a, w))) = authErrorMessage err"
  using assms
  by (simp add: App_AuthCard_handleSubmit_def AuthCard_handleSubmit_valid
      App_handleCreateAccount_def Let_def)

lemma download_error_alerted:
  assumes "downloadFile client account (fileName r) = Inl err"
  shows "events_since w (download_and_save client account r w)
           = [Remote (DownloadFile account (fileName r)),
              Alert (message_or err ''Download failed'')]"
  using assms by (simp add: download_and_save_def Let_def emit_fields events_since_def)

lemma FilesGallery_delete_error_alerted:
  assumes "deleteFile client account (fileName r) = Inl err"
  shows "FilesGallery_handleDelete client forAccount account True r (g, w)
           = (g, emit [Alert (message_or err ''Delete failed'')]
                   (emit [Remote (DeleteFile account (fileName r))] w))"
  using assms by (simp add: FilesGallery_handleDelete_def Let_def)

lemma UploadsCard_delete_error_alerted:
  assumes "deleteFile client account (fileId r) = Inl err"
  shows "UploadsCard_handleDelete client defaultKey account True r (u, w)
           = (u, emit [Alert (message_or err ''Delete failed'')]
                   (emit [Remote (DeleteFile account (fileId r))] w))"
  using assms by (simp add: UploadsCard_handleDelete_def Let_def)

lemma share_error_alerted:
  assumes "createPublicLink client account (fileName r) = Inl err"
  shows "FilesGallery_generateShareLink client account r (g, w)
           = (g\<lparr>fg_selectedFile := None, fg_linkCopied := False\<rparr>,
              emit [Alert (message_or err ''Failed to create share link'')]
                (emit [Remote (CreatePublicLink account (fileName r))] w))"
  using assms by (simp add: FilesGallery_generateShareLink_def Let_def)

lemma AccountCard_balance_error_logged:
  assumes "getBalance client account = Inl err"
  shows "AccountCard_loadBalance client account (c, w)
           = (c\<lparr>ac_loadingBalance := False\<rparr>,
              emit [ConsoleError ''Failed to load balance:'' err]
                (emit [Remote (GetBalance account)] w))"
  using assms by (simp add: AccountCard_loadBalance_def Let_def)

lemma UploadsCard_balance_error_logged:
  assumes "getBalance client account = Inl err"
  shows "UploadsCard_loadBalance client account (u, w)
           = (u\<lparr>ups_loadingBalance := False\<rparr>,
              emit [ConsoleError ''Failed to load balance:'' err]
                (emit [Remote (GetBalance account)] w))"
  using assms by (simp add: UploadsCard_loadBalance_def Let_def)

lemma loadFiles_never_alerts:
  "\<not> list_ex is_Alert
       (events_since w (snd (FilesGallery_loadFiles client forAccount account (g, w))))"
proof -
  obtain es where "trace (snd (FilesGallery_loadFiles client forAccount account (g, w)))
      = trace w @ es" "list_all preview_event es"
    using FilesGallery_loadFiles_trace by blast
  then show ?thesis
    by (simp add: events_since_def preview_events_no_Alert)
qed

section \<open>Upload registration\<close>

lemma handleFileSelect_failure:
  assumes "uploadFile client account file (name file) = Inl err"
  shows "UploadCard_handleFileSelect client account m (Some file) (s, w) =
           (s\<lparr>uc_error := message_or err ''Upload failed'', uc_uploading := False,
              uc_progress := last (0 # uploadProgress client account file),
              uc_uploadedFile := None\<rparr>,
            emit [Remote (UploadFile account file (name file))] w)"
  using assms by (simp add: UploadCard_handleFileSelect_def Let_def)

lemma handleFileSelect_success:
  assumes "uploadFile client account file (name file) = Inr result"
  shows "snd (UploadCard_handleFileSelect client account m (Some file) (s, w)) =
           emit ((if m then [ResetFileInput] else []) @ [Broadcast])
             (addFile (UploadCard_fileStorage account) result
               (emit [Remote (UploadFile account file (name file))] w))"
  using assms by (simp add: UploadCard_handleFileSelect_def Let_def emit_def)

text \<open>An upload under one account leaves the index \<^verbatim>\<open>UploadCard\<close> keeps for
  another username as it was.\<close>

lemma UploadCard_fileStorage_inj:
  "UploadCard_fileStorage a = UploadCard_fileStorage b \<longleftrightarrow> username a = username b"
  by (simp add: UploadCard_fileStorage_def)

lemma UploadCard_upload_scoped:
  assumes "username a \<noteq> username b"
  shows "listFiles (UploadCard_fileStorage a)
           (snd (UploadCard_handleFileSelect client b m picked (s, w)))
         = listFiles (UploadCard_fileStorage a) w"
proof (cases picked)
  case None
  then show ?thesis by (simp add: UploadCard_handleFileSelect_def)
next
  case (Some f)
  show ?thesis
  proof (cases "uploadFile client b f (name f)")
    case (Inl err)
    then show ?thesis
      by (simp add: Some handleFileSelect_failure listFiles_def emit_fields)
  next
    case (Inr result)
    then show ?thesis
      using assms
      by (simp add: Some handleFileSelect_success listFiles_def emit_fields addFile_def
          UploadCard_fileStorage_inj)
  qed
qed

text \<open>
  C5. Upload atomicity. When \<^verbatim>\<open>client.uploadFile\<close> rejects, the persisted index is
  unchanged, no \<^verbatim>\<open>addFile\<close> happens and no \<^verbatim>\<open>fileUploaded\<close> event is dispatched.
  When it resolves with \<open>result\<close>, the index of the account's storage is the old one with
  \<open>result\<close> appended, every other entry is unchanged, and the \<^verbatim>\<open>addFile\<close> of
  \<open>result\<close> comes first and the dispatch of the event after it.
\<close>

theorem upload_atomicity:
  "(uploadFile client account file (name file) = Inl err \<longrightarrow>
      localFiles (snd (UploadCard_handleFileSelect client account m (Some file) (s, w)))
        = localFiles w
      \<and> (\<forall>k r. IndexAdd k r \<notin> set (events_since w
            (snd (UploadCard_handleFileSelect client account m (Some file) (s, w)))))
      \<and> Broadcast \<notin> set (events_since w
            (snd (UploadCard_handleFileSelect client account m (Some file) (s, w)))))
   \<and> (uploadFile client account file (name file) = Inr result \<longrightarrow>
      localFiles (snd (UploadCard_handleFileSelect client account m (Some file) (s, w)))
        = (localFiles w)(UploadCard_fileStorage account :=
             listFiles (UploadCard_fileStorage account) w @ [result])
      \<and> then_after (IndexAdd (UploadCard_fileStorage account) result) Broadcast
            (events_since w
              (snd (UploadCard_handleFileSelect client account m (Some file) (s, w)))))"
proof (intro conjI impI)
  assume f: "uploadFile client account file (name file) = Inl err"
  show "localFiles (snd (UploadCard_handleFileSelect client account m (Some file) (s, w)))
          = localFiles w"
    by (simp add: handleFileSelect_failure [OF f] emit_def)
  show "\<forall>k r. IndexAdd k r \<notin> set (events_since w
            (snd (UploadCard_handleFileSelect client account m (Some file) (s, w))))"
    by (simp add: handleFileSelect_failure [OF f] emit_def events_since_def)
  show "Broadcast \<notin> set (events_since w
            (snd (UploadCard_handleFileSelect client account m (Some file) (s, w))))"
    by (simp add: handleFileSelect_failure [OF f] emit_def events_since_def)
next
  assume k: "uploadFile client account file (name file) = Inr result"
  show "localFiles (snd (UploadCard_handleFileSelect client account m (Some file) (s, w)))
          = (localFiles w)(UploadCard_fileStorage account :=
               listFiles (UploadCard_fileStorage account) w @ [result])"
    by (simp add: handleFileSelect_success [OF k] emit_def addFile_def listFiles_def)
  show "then_after (IndexAdd (UploadCard_fileStorage account) result) Broadcast
          (events_since w
            (snd (UploadCard_handleFileSelect client account m (Some file) (s, w))))"
    by (simp add: handleFileSelect_success [OF k] emit_def addFile_def events_since_def
        then_after_def)
qed

theorem upload_atomicity_witness:
  "uploadFile failing_client alice photo (name photo) = Inl network_down
   \<and> localFiles (snd (UploadCard_handleFileSelect failing_client alice True (Some photo)
        (idle_upload_card, empty_world))) = localFiles empty_world
   \<and> Broadcast \<notin> set (events_since empty_world
        (snd (UploadCard_handleFileSelect failing_client alice True (Some photo)
          (idle_upload_card, empty_world))))
   \<and> uploadFile ok_client alice photo (name photo) = Inr photo_record
   \<and> listFiles ''firestarter_files_alice123''
        (snd (UploadCard_handleFileSelect ok_client alice True (Some photo)
          (idle_upload_card, empty_world))) = [photo_record]
   \<and> then_after (IndexAdd ''firestarter_files_alice123'' photo_record) Broadcast
        (events_since empty_world
          (snd (UploadCard_handleFileSelect ok_client alice True (Some photo)
            (idle_upload_card, empty_world))))"
proof -
  have f: "uploadFile failing_client alice photo (name photo) = Inl network_down"
    by (simp add: failing_client_def)
  have k: "uploadFile ok_client alice photo (name photo) = Inr photo_record"
    by (simp add: ok_client_def)
  have key: "UploadCard_fileStorage alice = ''firestarter_files_alice123''"
    by (simp add: UploadCard_fileStorage_def alice_def)
  note a = upload_atomicity [of failing_client alice photo network_down True
      idle_upload_card empty_world photo_record]
  note b = upload_atomicity [of ok_client alice photo network_down True
      idle_upload_card empty_world photo_record]
  from a f have a': "localFiles (snd (UploadCard_handleFileSelect failing_client alice True
        (Some photo) (idle_upload_card, empty_world))) = localFiles empty_world
    \<and> Broadcast \<notin> set (events_since empty_world
        (snd (UploadCard_handleFileSelect failing_client alice True (Some photo)
          (idle_upload_card, empty_world))))"
    by blast
  from b k have b': "localFiles (snd (UploadCard_handleFileSelect ok_client alice True
        (Some photo) (idle_upload_card, empty_world)))
        = (localFiles empty_world)(UploadCard_fileStorage alice :=
             listFiles (UploadCard_fileStorage alice) empty_world @ [photo_record])
    \<and> then_after (IndexAdd (UploadCard_fileStorage alice) photo_record) Broadcast
        (events_since empty_world
          (snd (UploadCard_handleFileSelect ok_client alice True (Some photo)
            (idle_upload_card, empty_world))))"
    by blast
  have l: "listFiles ''firestarter_files_alice123''
        (snd (UploadCard_handleFileSelect ok_client alice True (Some photo)
          (idle_upload_card, empty_world))) = [photo_record]"
    using b' by (simp add: key listFiles_def empty_world_def)
  show ?thesis using f k a' b' l by (simp add: key)
qed

section \<open>Preview cache\<close>

text \<open>
  C8 (amended). For a listed record whose filename has a dot, and with file ids unique in
  the listing, \<^verbatim>\<open>loadFiles\<close> leaves a preview under the record's id exactly when the
  extension, lower-cased, is one of \<^verbatim>\<open>jpg, jpeg, png, gif, webp, svg\<close> and the
  download of its bytes succeeds.
\<close>

theorem preview_iff_image_extension_and_fetched:
  assumes "f \<in> set (listFiles (FilesGallery_fileStorage forAccount account) w)"
    and "distinct (map fileId (listFiles (FilesGallery_fileStorage forAccount account) w))"
    and "CHR ''.'' \<in> set (fileName f)"
  shows "fg_imagePreviews (fst (FilesGallery_loadFiles client forAccount account (s, w)))
             (fileId f) \<noteq> None
         \<longleftrightarrow> has_image_extension (fileName f) \<and> fetched client account f"
proof -
  let ?L = "listFiles (forAccount account) w"
  from assms(1,2) have f: "f \<in> set ?L" and d: "distinct (map fileId ?L)"
    by (simp_all add: FilesGallery_fileStorage_def)
  have same: "\<And>g. g \<in> set ?L \<Longrightarrow> fileId g = fileId f \<Longrightarrow> g = f"
    using d f by (meson distinct_map inj_onD)
  have "fst (loadPreviews client account ?L (Map.empty, w)) (fileId f) = None
        \<longleftrightarrow> \<not> (isImageFile (fileName f) \<and> fetched client account f)"
    unfolding loadPreviews_None using f same by auto
  then show ?thesis
    by (simp add: FilesGallery_loadFiles_eq isImageFile_has_image_extension [OF assms(3)])
qed

theorem preview_iff_witness:
  "photo_record \<in> set (listFiles (FilesGallery_fileStorage UploadCard_fileStorage alice)
        world_with_photo)
   \<and> distinct (map fileId (listFiles (FilesGallery_fileStorage UploadCard_fileStorage alice)
        world_with_photo))
   \<and> CHR ''.'' \<in> set (fileName photo_record)
   \<and> has_image_extension (fileName photo_record)
   \<and> fetched ok_client alice photo_record
   \<and> fg_imagePreviews (fst (FilesGallery_loadFiles ok_client UploadCard_fileStorage alice
        (idle_gallery, world_with_photo))) (fileId photo_record) \<noteq> None"
proof -
  have a: "photo_record \<in> set (listFiles (FilesGallery_fileStorage UploadCard_fileStorage alice)
        world_with_photo)"
    by code_simp
  have b: "distinct (map fileId (listFiles (FilesGallery_fileStorage UploadCard_fileStorage alice)
        world_with_photo))"
    by code_simp
  have c: "CHR ''.'' \<in> set (fileName photo_record)"
    by code_simp
  have d: "has_image_extension (fileName photo_record)"
    by code_simp
  have e: "fetched ok_client alice photo_record"
    by code_simp
  from preview_iff_image_extension_and_fetched [OF a b c, of ok_client idle_gallery] d e
  have "fg_imagePreviews (fst (FilesGallery_loadFiles ok_client UploadCard_fileStorage alice
        (idle_gallery, world_with_photo))) (fileId photo_record) \<noteq> None"
    by blast
  with a b c d e show ?thesis by blast
qed

text \<open>
  The claim as stated, without the fetch: \<^verbatim>\<open>photo.png\<close> is listed and has an image
  extension, the download is rejected, and no preview is made.
\<close>

theorem preview_needs_fetch_counterexample:
  "photo_record \<in> set (listFiles (FilesGallery_fileStorage UploadCard_fileStorage alice)
        world_with_photo)
   \<and> has_image_extension (fileName photo_record)
   \<and> fg_imagePreviews (fst (FilesGallery_loadFiles no_download_client UploadCard_fileStorage
        alice (idle_gallery, world_with_photo))) (fileId photo_record) = None"
  by code_simp

text \<open>
  C3. The gallery is rendered for alice with \<^verbatim>\<open>photo.png\<close> in her index, which
  creates object URL 0 for it; a \<^verbatim>\<open>fileUploaded\<close> event then runs \<^verbatim>\<open>loadFiles\<close>
  again. The new generation holds URL 1; URL 0 is never revoked and stays allocated though
  no preview refers to it.
\<close>

theorem reload_leaves_old_urls_live:
  "fg_imagePreviews (fst gallery_mounted) ''id-1'' = Some 0
   \<and> liveUrls (snd gallery_mounted) = [0]
   \<and> fg_files (fst gallery_reloaded) = [photo_record]
   \<and> fg_imagePreviews (fst gallery_reloaded) ''id-1'' = Some 1
   \<and> liveUrls (snd gallery_reloaded) = [0, 1]
   \<and> RevokeObjectURL 0 \<notin> set (trace (snd gallery_reloaded))"
  by code_simp

text \<open>
  C9. Per-item isolation. Let a listed image file's download be rejected (file ids being
  unique in the listing). Then \<^verbatim>\<open>loadFiles\<close> leaves that record without a preview,
  the failure is written to the console and nothing is alerted, the listing is set in
  full, and every listed image file whose download succeeds has a preview, an allocated
  object URL.
\<close>

theorem preview_failure_isolated:
  assumes "f \<in> set (listFiles (FilesGallery_fileStorage forAccount account) w)"
    and "distinct (map fileId (listFiles (FilesGallery_fileStorage forAccount account) w))"
    and "isImageFile (fileName f)"
    and "downloadFile client account (fileName f) = Inl err"
  shows "fg_imagePreviews (fst (FilesGallery_loadFiles client forAccount account (s, w)))
           (fileId f) = None
    \<and> ConsoleError (''Failed to load preview for '' @ fileName f) err
        \<in> set (events_since w (snd (FilesGallery_loadFiles client forAccount account (s, w))))
    \<and> \<not> list_ex is_Alert
        (events_since w (snd (FilesGallery_loadFiles client forAccount account (s, w))))
    \<and> fg_files (fst (FilesGallery_loadFiles client forAccount account (s, w)))
        = listFiles (FilesGallery_fileStorage forAccount account) w
    \<and> (\<forall>g \<in> set (listFiles (FilesGallery_fileStorage forAccount account) w).
          isImageFile (fileName g) \<and> fetched client account g \<longrightarrow>
          (\<exists>u. fg_imagePreviews (fst (FilesGallery_loadFiles client forAccount account (s, w)))
                  (fileId g) = Some u
               \<and> u \<in> set (liveUrls
                    (snd (FilesGallery_loadFiles client forAccount account (s, w))))))"
proof -
  let ?L = "listFiles (forAccount account) w"
  let ?R = "loadPreviews client account ?L (Map.empty, w)"
  from assms(1,2) have f: "f \<in> set ?L" and d: "distinct (map fileId ?L)"
    by (simp_all add: FilesGallery_fileStorage_def)
  have same: "\<And>g. g \<in> set ?L \<Longrightarrow> fileId g = fileId f \<Longrightarrow> g = f"
    using d f by (meson distinct_map inj_onD)
  have nf: "\<not> fetched client account f"
    by (simp add: fetched_def assms(4))
  have 1: "fst ?R (fileId f) = None"
    unfolding loadPreviews_None using same nf by auto
  have 2: "ConsoleError (''Failed to load preview for '' @ fileName f) err
        \<in> set (events_since w (snd ?R))"
    using f assms(3,4) by (rule loadPreviews_failure_logged)
  obtain es where es: "trace (snd ?R) = trace w @ es" "list_all preview_event es"
    using loadPreviews_trace by blast
  have 3: "\<not> list_ex is_Alert (events_since w (snd ?R))"
    using es by (simp add: events_since_def preview_events_no_Alert)
  have 5: "\<exists>u. fst ?R (fileId g) = Some u \<and> u \<in> set (liveUrls (snd ?R))"
    if g: "g \<in> set ?L" "isImageFile (fileName g)" "fetched client account g" for g
  proof -
    have "fst ?R (fileId g) \<noteq> None"
      unfolding loadPreviews_None using g by auto
    then obtain u where u: "fst ?R (fileId g) = Some u" by auto
    from loadPreviews_live [OF u] have "u \<in> set (liveUrls (snd ?R))" by simp
    with u show ?thesis by blast
  qed
  show ?thesis
    using 1 2 3 5
    by (simp add: FilesGallery_loadFiles_eq FilesGallery_fileStorage_def)
qed

theorem preview_failure_isolated_witness:
  "broken_record \<in> set (listFiles (FilesGallery_fileStorage UploadCard_fileStorage alice)
        world_two_photos)
   \<and> distinct (map fileId (listFiles (FilesGallery_fileStorage UploadCard_fileStorage alice)
        world_two_photos))
   \<and> isImageFile (fileName broken_record)
   \<and> downloadFile flaky_client alice (fileName broken_record) = Inl network_down
   \<and> fg_imagePreviews (fst (FilesGallery_loadFiles flaky_client UploadCard_fileStorage alice
        (idle_gallery, world_two_photos))) (fileId broken_record) = None
   \<and> (\<exists>u. fg_imagePreviews (fst (FilesGallery_loadFiles flaky_client UploadCard_fileStorage
               alice (idle_gallery, world_two_photos))) (fileId photo_record) = Some u
          \<and> u \<in> set (liveUrls (snd (FilesGallery_loadFiles flaky_client
               UploadCard_fileStorage alice (idle_gallery, world_two_photos)))))"
proof -
  have a: "broken_record \<in> set (listFiles (FilesGallery_fileStorage UploadCard_fileStorage alice)
        world_two_photos)"
    by code_simp
  have b: "distinct (map fileId (listFiles (FilesGallery_fileStorage UploadCard_fileStorage alice)
        world_two_photos))"
    by code_simp
  have c: "isImageFile (fileName broken_record)"
    by code_simp
  have d: "downloadFile flaky_client alice (fileName broken_record) = Inl network_down"
    by code_simp
  have e: "photo_record \<in> set (listFiles (FilesGallery_fileStorage UploadCard_fileStorage alice)
        world_two_photos)"
    by code_simp
  have g: "isImageFile (fileName photo_record) \<and> fetched flaky_client alice photo_record"
    by code_simp
  note t = preview_failure_isolated [OF a b c d, of idle_gallery]
  from t have 1: "fg_imagePreviews (fst (FilesGallery_loadFiles flaky_client
        UploadCard_fileStorage alice (idle_gallery, world_two_photos))) (fileId broken_record)
        = None"
    by blast
  from t e g have 2: "\<exists>u. fg_imagePreviews (fst (FilesGallery_loadFiles flaky_client
        UploadCard_fileStorage alice (idle_gallery, world_two_photos))) (fileId photo_record)
          = Some u
        \<and> u \<in> set (liveUrls (snd (FilesGallery_loadFiles flaky_client
               UploadCard_fileStorage alice (idle_gallery, world_two_photos))))"
    by blast
  from a b c d 1 2 show ?thesis by blast
qed

section \<open>Mutation and notification\<close>

text \<open>
  C2 (amended). A successful upload in \<^verbatim>\<open>UploadCard\<close> adds the record to the index
  and then dispatches \<^verbatim>\<open>fileUploaded\<close>, in that order. A successful delete in
  \<^verbatim>\<open>FilesGallery\<close> removes the record from the index after the remote call and then
  reloads the gallery's own listing directly; it dispatches no event.
\<close>

theorem mutate_then_notify_or_reload:
  "(uploadFile client account file (name file) = Inr result \<longrightarrow>
      then_after (IndexAdd (UploadCard_fileStorage account) result) Broadcast
        (events_since w
          (snd (UploadCard_handleFileSelect client account m (Some file) (us, w)))))
   \<and> (deleteFile client account (fileName r) = Inr u \<longrightarrow>
      then_after (Remote (DeleteFile account (fileName r)))
          (IndexRemove (FilesGallery_fileStorage forAccount account) (fileId r))
          (events_since w
            (snd (FilesGallery_handleDelete client forAccount account True r (g, w))))
      \<and> Broadcast \<notin> set (events_since w
            (snd (FilesGallery_handleDelete client forAccount account True r (g, w))))
      \<and> listFiles (FilesGallery_fileStorage forAccount account)
            (snd (FilesGallery_handleDelete client forAccount account True r (g, w)))
          = filter (\<lambda>f. fileId f \<noteq> fileId r)
              (listFiles (FilesGallery_fileStorage forAccount account) w)
      \<and> fg_files (fst (FilesGallery_handleDelete client forAccount account True r (g, w)))
          = listFiles (FilesGallery_fileStorage forAccount account)
              (snd (FilesGallery_handleDelete client forAccount account True r (g, w))))"
proof (intro conjI impI)
  assume k: "uploadFile client account file (name file) = Inr result"
  show "then_after (IndexAdd (UploadCard_fileStorage account) result) Broadcast
          (events_since w
            (snd (UploadCard_handleFileSelect client account m (Some file) (us, w))))"
    by (simp add: handleFileSelect_success [OF k] emit_def addFile_def events_since_def
        then_after_def)
next
  assume d: "deleteFile client account (fileName r) = Inr u"
  obtain es where es: "events_since w
        (snd (FilesGallery_handleDelete client forAccount account True r (g, w)))
      = [Remote (DeleteFile account (fileName r)),
         IndexRemove (forAccount account) (fileId r)] @ es"
    and nb: "Broadcast \<notin> set es"
    using FilesGallery_handleDelete_trace [OF d] by blast
  show "then_after (Remote (DeleteFile account (fileName r)))
          (IndexRemove (FilesGallery_fileStorage forAccount account) (fileId r))
          (events_since w
            (snd (FilesGallery_handleDelete client forAccount account True r (g, w))))"
    by (simp add: es then_after_def FilesGallery_fileStorage_def)
  show "Broadcast \<notin> set (events_since w
            (snd (FilesGallery_handleDelete client forAccount account True r (g, w))))"
    using nb by (simp add: es)
  show l: "listFiles (FilesGallery_fileStorage forAccount account)
            (snd (FilesGallery_handleDelete client forAccount account True r (g, w)))
          = filter (\<lambda>f. fileId f \<noteq> fileId r)
              (listFiles (FilesGallery_fileStorage forAccount account) w)"
    by (simp add: listFiles_def FilesGallery_handleDelete_index [OF d]
        FilesGallery_fileStorage_def)
  show "fg_files (fst (FilesGallery_handleDelete client forAccount account True r (g, w)))
          = listFiles (FilesGallery_fileStorage forAccount account)
              (snd (FilesGallery_handleDelete client forAccount account True r (g, w)))"
    by (cases "fg_imagePreviews g (fileId r)")
       (simp_all add: FilesGallery_handleDelete_ok [OF d] FilesGallery_loadFiles_files
          FilesGallery_fileStorage_def)
qed

theorem mutate_then_notify_or_reload_witness:
  "uploadFile ok_client alice photo (name photo) = Inr photo_record
   \<and> then_after (IndexAdd (UploadCard_fileStorage alice) photo_record) Broadcast
        (events_since empty_world
          (snd (UploadCard_handleFileSelect ok_client alice True (Some photo)
            (idle_upload_card, empty_world))))
   \<and> deleteFile ok_client alice (fileName photo_record) = Inr ()
   \<and> Broadcast \<notin> set (events_since world_with_photo
        (snd (FilesGallery_handleDelete ok_client UploadCard_fileStorage alice True
          photo_record (idle_gallery, world_with_photo))))
   \<and> listFiles (FilesGallery_fileStorage UploadCard_fileStorage alice)
        (snd (FilesGallery_handleDelete ok_client UploadCard_fileStorage alice True
          photo_record (idle_gallery, world_with_photo))) = []"
proof -
  have k: "uploadFile ok_client alice photo (name photo) = Inr photo_record"
    by (simp add: ok_client_def)
  have d: "deleteFile ok_client alice (fileName photo_record) = Inr ()"
    by (simp add: ok_client_def)
  have l: "filter (\<lambda>f. fileId f \<noteq> fileId photo_record)
             (listFiles (FilesGallery_fileStorage UploadCard_fileStorage alice)
                world_with_photo) = []"
    by code_simp
  note t = mutate_then_notify_or_reload [of ok_client alice photo photo_record empty_world
      True idle_upload_card photo_record "()" UploadCard_fileStorage idle_gallery]
  note t' = mutate_then_notify_or_reload [of ok_client alice photo photo_record
      world_with_photo True idle_upload_card photo_record "()" UploadCard_fileStorage
      idle_gallery]
  from t k have 1: "then_after (IndexAdd (UploadCard_fileStorage alice) photo_record) Broadcast
        (events_since empty_world
          (snd (UploadCard_handleFileSelect ok_client alice True (Some photo)
            (idle_upload_card, empty_world))))"
    by blast
  from t' d have 2: "Broadcast \<notin> set (events_since world_with_photo
        (snd (FilesGallery_handleDelete ok_client UploadCard_fileStorage alice True
          photo_record (idle_gallery, world_with_photo))))"
    and 3: "listFiles (FilesGallery_fileStorage UploadCard_fileStorage alice)
        (snd (FilesGallery_handleDelete ok_client UploadCard_fileStorage alice True
          photo_record (idle_gallery, world_with_photo)))
        = filter (\<lambda>f. fileId f \<noteq> fileId photo_record)
             (listFiles (FilesGallery_fileStorage UploadCard_fileStorage alice)
                world_with_photo)"
    by blast+
  from k d 1 2 3 l show ?thesis by simp
qed

text \<open>
  The claim as stated: alice deletes \<^verbatim>\<open>photo.png\<close>, the remote delete succeeds, the
  record leaves the index, and no \<^verbatim>\<open>fileUploaded\<close> event follows.
\<close>

theorem delete_emits_no_broadcast_counterexample:
  "deleteFile ok_client alice (fileName photo_record) = Inr ()
   \<and> listFiles (FilesGallery_fileStorage UploadCard_fileStorage alice) (snd gallery_mounted)
       = [photo_record]
   \<and> listFiles (FilesGallery_fileStorage UploadCard_fileStorage alice)
       (snd gallery_after_delete) = []
   \<and> IndexRemove (FilesGallery_fileStorage UploadCard_fileStorage alice) (fileId photo_record)
       \<in> set (events_since (snd gallery_mounted) (snd gallery_after_delete))
   \<and> Broadcast \<notin> set (events_since (snd gallery_mounted) (snd gallery_after_delete))"
  by code_simp

section \<open>The name passed to deleteFile\<close>

text \<open>
  C4. \<^verbatim>\<open>UploadsCard.handleDelete\<close> on the record of \<^verbatim>\<open>photo.png\<close> calls
  \<^verbatim>\<open>client.deleteFile(account, 'id-1')\<close>, the file id; \<^verbatim>\<open>FilesGallery.handleDelete\<close>
  on the same record passes \<^verbatim>\<open>'photo.png'\<close>.
\<close>

theorem UploadsCard_delete_passes_fileId:
  "fileId photo_record = ''id-1'' \<and> fileName photo_record = ''photo.png''
   \<and> events_since world_with_photo
        (snd (UploadsCard_handleDelete ok_client defaultKey alice True photo_record
          (idle_uploads_card, world_with_photo)))
      = [Remote (DeleteFile alice ''id-1''), IndexRemove defaultKey ''id-1'',
         Remote (GetBalance alice)]
   \<and> hd (events_since (snd gallery_mounted) (snd gallery_after_delete))
      = Remote (DeleteFile alice ''photo.png'')"
proof -
  have d: "deleteFile ok_client alice (fileId photo_record) = Inr ()"
    by (simp add: ok_client_def)
  have g: "getBalance ok_client alice = Inr \<lparr>pipe = 1, sol = 2, publicKey = ''pk''\<rparr>"
    by (simp add: ok_client_def)
  have 1: "fileId photo_record = ''id-1'' \<and> fileName photo_record = ''photo.png''"
    by (simp add: photo_record_def)
  have 2: "events_since world_with_photo
        (snd (UploadsCard_handleDelete ok_client defaultKey alice True photo_record
          (idle_uploads_card, world_with_photo)))
      = [Remote (DeleteFile alice (fileId photo_record)),
         IndexRemove defaultKey (fileId photo_record), Remote (GetBalance alice)]"
    by (simp add: UploadsCard_handleDelete_ok [OF d] UploadsCard_loadBalance_world g
        events_since_def removeFile_fields emit_fields)
  have 3: "hd (events_since (snd gallery_mounted) (snd gallery_after_delete))
      = Remote (DeleteFile alice ''photo.png'')"
    by code_simp
  from 1 2 3 show ?thesis by simp
qed

section \<open>Account scoping\<close>

text \<open>
  C1. \<^verbatim>\<open>UploadsCard\<close> reads and mutates the index under the SDK's default key,
  whichever account it is rendered for: with one record under that key, the component
  lists it for bob and for alice alike, and after bob deletes it alice's listing is
  empty. \<^verbatim>\<open>UploadCard\<close> keys its storage by the username.
\<close>

theorem UploadsCard_index_not_account_scoped:
  "username alice \<noteq> username bob
   \<and> UploadCard_fileStorage alice \<noteq> UploadCard_fileStorage bob
   \<and> ups_files (fst (UploadsCard_handleFileUploaded ok_client defaultKey bob
        (idle_uploads_card, shared_default_index defaultKey))) = [photo_record]
   \<and> ups_files (fst (UploadsCard_handleFileUploaded ok_client defaultKey alice
        (idle_uploads_card, shared_default_index defaultKey))) = [photo_record]
   \<and> ups_files (fst (UploadsCard_handleFileUploaded ok_client defaultKey alice
        (idle_uploads_card,
         snd (UploadsCard_handleDelete ok_client defaultKey bob True photo_record
                (idle_uploads_card, shared_default_index defaultKey))))) = []"
proof -
  have d: "deleteFile ok_client bob (fileId photo_record) = Inr ()"
    by (simp add: ok_client_def)
  have 1: "username alice \<noteq> username bob
     \<and> UploadCard_fileStorage alice \<noteq> UploadCard_fileStorage bob"
    by (simp add: alice_def bob_def UploadCard_fileStorage_def)
  have ld: "\<And>a w. ups_files (fst (UploadsCard_handleFileUploaded ok_client defaultKey a
        (idle_uploads_card, w))) = localFiles w defaultKey"
    by (simp add: UploadsCard_handleFileUploaded_def UploadsCard_loadFiles_def
        UploadsCard_loadBalance_files UploadsCard_fileStorage_def listFiles_def)
  have 2: "localFiles (shared_default_index defaultKey) defaultKey = [photo_record]"
    by (simp add: shared_default_index_def)
  have 3: "localFiles (snd (UploadsCard_handleDelete ok_client defaultKey bob True photo_record
                (idle_uploads_card, shared_default_index defaultKey))) defaultKey = []"
    by (cases "getBalance ok_client bob")
       (simp_all add: UploadsCard_handleDelete_ok [OF d] UploadsCard_loadBalance_world
          removeFile_fields emit_fields 2)
  from 1 2 3 show ?thesis by (simp add: ld)
qed

section \<open>Validation before the network\<close>

text \<open>
  C7. When the username or the password fails its format validation,
  \<^verbatim>\<open>handleSubmit\<close> returns at once: the active account and the world are as before
  (no network call is started, nothing is saved), the error state holds the text of the
  validation that failed, and the loading flag is untouched. This holds for login and
  for account creation.
\<close>

theorem validation_before_network:
  assumes "\<not> valid (validateUsername user) \<or> \<not> valid (validatePassword pass)"
  shows "snd (App_AuthCard_handleSubmit validateUsername validatePassword client user pass
            isCreating (s, a, w)) = (a, w)
    \<and> events_since w (snd (snd (App_AuthCard_handleSubmit validateUsername validatePassword
            client user pass isCreating (s, a, w)))) = []
    \<and> storage_load (snd (snd (App_AuthCard_handleSubmit validateUsername validatePassword
            client user pass isCreating (s, a, w)))) = storage_load w
    \<and> au_error (fst (App_AuthCard_handleSubmit validateUsername validatePassword client user
            pass isCreating (s, a, w)))
        = (if \<not> valid (validateUsername user) then error (validateUsername user)
           else error (validatePassword pass))
    \<and> au_loading (fst (App_AuthCard_handleSubmit validateUsername validatePassword client
            user pass isCreating (s, a, w))) = au_loading s"
  unfolding App_AuthCard_handleSubmit_def
    AuthCard_handleSubmit_invalid [of validateUsername user validatePassword pass, OF assms]
  by (simp add: events_since_def)

theorem validation_before_network_witness:
  "\<not> valid (eight_chars ''Username'' ''bob'')
   \<and> events_since empty_world (snd (snd (App_AuthCard_handleSubmit (eight_chars ''Username'')
        (eight_chars ''Password'') ok_client ''bob'' ''Passw0rd!1'' False
        (idle_auth_card, None, empty_world)))) = []
   \<and> storage_load (snd (snd (App_AuthCard_handleSubmit (eight_chars ''Username'')
        (eight_chars ''Password'') ok_client ''bob'' ''Passw0rd!1'' False
        (idle_auth_card, None, empty_world)))) = None
   \<and> au_error (fst (App_AuthCard_handleSubmit (eight_chars ''Username'')
        (eight_chars ''Password'') ok_client ''bob'' ''Passw0rd!1'' False
        (idle_auth_card, None, empty_world)))
      = Some ''Username must be at least 8 characters''
   \<and> valid (eight_chars ''Username'' ''alice123'')
   \<and> \<not> valid (eight_chars ''Password'' ''pw'')
   \<and> events_since empty_world (snd (snd (App_AuthCard_handleSubmit (eight_chars ''Username'')
        (eight_chars ''Password'') ok_client ''alice123'' ''pw'' True
        (idle_auth_card, None, empty_world)))) = []
   \<and> au_error (fst (App_AuthCard_handleSubmit (eight_chars ''Username'')
        (eight_chars ''Password'') ok_client ''alice123'' ''pw'' True
        (idle_auth_card, None, empty_world)))
      = Some ''Password must be at least 8 characters''"
proof -
  have u: "\<not> valid (eight_chars ''Username'' ''bob'')"
    by (simp add: eight_chars_def)
  have v: "valid (eight_chars ''Username'' ''alice123'')"
    by (simp add: eight_chars_def)
  have p: "\<not> valid (eight_chars ''Password'' ''pw'')"
    by (simp add: eight_chars_def)
  have h1: "\<not> valid (eight_chars ''Username'' ''bob'')
      \<or> \<not> valid (eight_chars ''Password'' ''Passw0rd!1'')"
    using u by simp
  have h2: "\<not> valid (eight_chars ''Username'' ''alice123'')
      \<or> \<not> valid (eight_chars ''Password'' ''pw'')"
    using p by simp
  note a = validation_before_network [of "eight_chars ''Username''" "''bob''"
      "eight_chars ''Password''" "''Passw0rd!1''" ok_client False idle_auth_card None
      empty_world, OF h1]
  note b = validation_before_network [of "eight_chars ''Username''" "''alice123''"
      "eight_chars ''Password''" "''pw''" ok_client True idle_auth_card None
      empty_world, OF h2]
  have e1: "error (eight_chars ''Username'' ''bob'')
      = Some ''Username must be at least 8 characters''"
    by (simp add: eight_chars_def)
  have e2: "error (eight_chars ''Password'' ''pw'')
      = Some ''Password must be at least 8 characters''"
    by (simp add: eight_chars_def)
  have s0: "storage_load empty_world = None"
    by (simp add: storage_load_def empty_world_def)
  from a b u v p e1 e2 s0 show ?thesis by (simp add: events_since_def)
qed

section \<open>File sizes\<close>

text \<open>
  C10. \<^verbatim>\<open>formatFileSize(0)\<close> is \<^verbatim>\<open>'0 Bytes'\<close>, by the guard; the branch after
  the guard has no value at 0, where \<^verbatim>\<open>Math.log\<close> is not finite. On every
  non-negative size the function has a value, and whenever it takes the branch after the
  guard the size is strictly positive and \<^verbatim>\<open>Math.log\<close> is defined on it.
\<close>

theorem formatFileSize_zero_guard:
  "formatFileSize numberToString 0 = Some ''0 Bytes''
   \<and> formatScaled numberToString 0 = None
   \<and> (0 \<le> bytes \<longrightarrow> formatFileSize numberToString bytes \<noteq> None)
   \<and> (0 \<le> bytes \<and> formatFileSize numberToString bytes \<noteq> Some ''0 Bytes'' \<longrightarrow>
        0 < bytes \<and> Math_log bytes = Some (ln bytes)
        \<and> formatFileSize numberToString bytes = formatScaled numberToString bytes)"
proof (intro conjI impI)
  show "formatFileSize numberToString 0 = Some ''0 Bytes''"
    by (simp add: formatFileSize_def)
  show "formatScaled numberToString 0 = None"
    by (rule formatScaled_zero)
next
  assume "0 \<le> bytes"
  then show "formatFileSize numberToString bytes \<noteq> None"
    by (cases "bytes = 0") (simp_all add: formatFileSize_def formatScaled_positive)
next
  assume a: "0 \<le> bytes \<and> formatFileSize numberToString bytes \<noteq> Some ''0 Bytes''"
  then have nz: "bytes \<noteq> 0"
    by (auto simp: formatFileSize_def)
  with a show "0 < bytes" by simp
  then show "Math_log bytes = Some (ln bytes)"
    by (simp add: Math_log_def)
  from nz show "formatFileSize numberToString bytes = formatScaled numberToString bytes"
    by (simp add: formatFileSize_def)
qed

theorem formatFileSize_zero_guard_witness:
  "(0 :: real) \<le> 0 \<and> formatFileSize (\<lambda>x. ''n'') 0 = Some ''0 Bytes''
   \<and> (0 :: real) \<le> 1024 \<and> formatFileSize (\<lambda>x. ''n'') 1024 = Some ''n KB''
   \<and> Math_log 1024 = Some (ln 1024)
   \<and> formatFileSize (\<lambda>x. ''n'') 1024 = formatScaled (\<lambda>x. ''n'') 1024"
proof -
  have k: "formatFileSize (\<lambda>x. ''n'') 1024 = Some ''n KB''"
    by (simp add: formatFileSize_1024)
  then have "(0 :: real) \<le> 1024 \<and> formatFileSize (\<lambda>x. ''n'') 1024 \<noteq> Some ''0 Bytes''"
    by simp
  with formatFileSize_zero_guard [of "\<lambda>x. ''n''" 1024] k show ?thesis
    by simp
qed

section \<open>Error propagation\<close>

text \<open>
  C6 (amended). A rejected login or account creation puts the message chosen by
  \<^verbatim>\<open>handleSubmit\<close> in the error state of \<^verbatim>\<open>AuthCard\<close>, and that text is non-empty
  whenever the error carries a message, has no code, or has one of the four codes the
  handler maps. A rejected upload puts the error's message, or \<^verbatim>\<open>'Upload failed'\<close>, in
  the error state of \<^verbatim>\<open>UploadCard\<close>; a rejected download, delete or share-link request
  is alerted. A rejected balance query, in \<^verbatim>\<open>AccountCard\<close> and in \<^verbatim>\<open>UploadsCard\<close>,
  is written to the console and nothing else: the balance state stays as it was, so the
  panel reads \<^verbatim>\<open>'Failed to load'\<close> when no balance had been loaded before and keeps
  showing the balance loaded earlier otherwise. \<^verbatim>\<open>loadFiles\<close> of the gallery never
  alerts, whatever the downloads of the previews do.
\<close>

theorem errors_surfaced_or_logged:
  "(valid (validateUsername user) \<and> valid (validatePassword pass)
      \<and> login client user pass = Inl err \<longrightarrow>
      au_error (fst (App_AuthCard_handleSubmit validateUsername validatePassword client
            user pass False (s, a, w))) = authErrorMessage err
      \<and> (shown (message err) \<or> known_code (code err) \<longrightarrow>
           shown (au_error (fst (App_AuthCard_handleSubmit validateUsername validatePassword
             client user pass False (s, a, w))))))
   \<and> (valid (validateUsername user) \<and> valid (validatePassword pass)
      \<and> createAccount client user pass = Inl err \<longrightarrow>
      au_error (fst (App_AuthCard_handleSubmit validateUsername validatePassword client
            user pass True (s, a, w))) = authErrorMessage err
      \<and> (shown (message err) \<or> known_code (code err) \<longrightarrow>
           shown (au_error (fst (App_AuthCard_handleSubmit validateUsername validatePassword
             client user pass True (s, a, w))))))
   \<and> (uploadFile client account picked (name picked) = Inl err \<longrightarrow>
      uc_error (fst (UploadCard_handleFileSelect client account m (Some picked) (us, w)))
        = message_or err ''Upload failed''
      \<and> message_or err ''Upload failed'' \<noteq> [])
   \<and> (downloadFile client account (fileName r) = Inl err \<longrightarrow>
      Alert (message_or err ''Download failed'')
        \<in> set (events_since w (snd (FilesGallery_handleDownload client account r (g, w))))
      \<and> Alert (message_or err ''Download failed'')
        \<in> set (events_since w (snd (UploadsCard_handleDownload client account r (u, w)))))
   \<and> (deleteFile client account (fileName r) = Inl err \<longrightarrow>
      Alert (message_or err ''Delete failed'')
        \<in> set (events_since w
              (snd (FilesGallery_handleDelete client forAccount account True r (g, w)))))
   \<and> (deleteFile client account (fileId r) = Inl err \<longrightarrow>
      Alert (message_or err ''Delete failed'')
        \<in> set (events_since w
              (snd (UploadsCard_handleDelete client defaultKey account True r (u, w)))))
   \<and> (createPublicLink client account (fileName r) = Inl err \<longrightarrow>
      Alert (message_or err ''Failed to create share link'')
        \<in> set (events_since w (snd (FilesGallery_generateShareLink client account r (g, w)))))
   \<and> (getBalance client account = Inl err \<longrightarrow>
      fst (AccountCard_loadBalance client account (c, w)) = c\<lparr>ac_loadingBalance := False\<rparr>
      \<and> events_since w (snd (AccountCard_loadBalance client account (c, w)))
        = [Remote (GetBalance account), ConsoleError ''Failed to load balance:'' err]
      \<and> AccountCard_balancePanel (fst (AccountCard_loadBalance client account (c, w)))
        = (case ac_balance c of None \<Rightarrow> FailedToLoad | Some b \<Rightarrow> ShowsBalance b)
      \<and> fst (UploadsCard_loadBalance client account (u, w)) = u\<lparr>ups_loadingBalance := False\<rparr>
      \<and> events_since w (snd (UploadsCard_loadBalance client account (u, w)))
        = [Remote (GetBalance account), ConsoleError ''Failed to load balance:'' err]
      \<and> UploadsCard_balancePanel (fst (UploadsCard_loadBalance client account (u, w)))
        = (case ups_balance u of None \<Rightarrow> FailedToLoad | Some b \<Rightarrow> ShowsBalance b))
   \<and> \<not> list_ex is_Alert
        (events_since w (snd (FilesGallery_loadFiles client forAccount account (g, w))))"
proof -
  have c1: "valid (validateUsername user) \<and> valid (validatePassword pass)
      \<and> login client user pass = Inl err \<longrightarrow>
      au_error (fst (App_AuthCard_handleSubmit validateUsername validatePassword client
            user pass False (s, a, w))) = authErrorMessage err
      \<and> (shown (message err) \<or> known_code (code err) \<longrightarrow>
           shown (au_error (fst (App_AuthCard_handleSubmit validateUsername validatePassword
             client user pass False (s, a, w)))))"
    using login_error_surfaced [of validateUsername user validatePassword pass client err s a w]
      authErrorMessage_shown [of err]
    by simp
  have c2: "valid (validateUsername user) \<and> valid (validatePassword pass)
      \<and> createAccount client user pass = Inl err \<longrightarrow>
      au_error (fst (App_AuthCard_handleSubmit validateUsername validatePassword client
            user pass True (s, a, w))) = authErrorMessage err
      \<and> (shown (message err) \<or> known_code (code err) \<longrightarrow>
           shown (au_error (fst (App_AuthCard_handleSubmit validateUsername validatePassword
             client user pass True (s, a, w)))))"
    using create_error_surfaced [of validateUsername user validatePassword pass client err s a w]
      authErrorMessage_shown [of err]
    by simp
  have c4: "uploadFile client account picked (name picked) = Inl err \<longrightarrow>
      uc_error (fst (UploadCard_handleFileSelect client account m (Some picked) (us, w)))
        = message_or err ''Upload failed''
      \<and> message_or err ''Upload failed'' \<noteq> []"
    by (simp add: handleFileSelect_failure message_or_nonempty)
  have c5: "downloadFile client account (fileName r) = Inl err \<longrightarrow>
      Alert (message_or err ''Download failed'')
        \<in> set (events_since w (snd (FilesGallery_handleDownload client account r (g, w))))
      \<and> Alert (message_or err ''Download failed'')
        \<in> set (events_since w (snd (UploadsCard_handleDownload client account r (u, w))))"
    by (simp add: FilesGallery_handleDownload_def UploadsCard_handleDownload_def Let_def
        download_error_alerted)
  have c6: "deleteFile client account (fileName r) = Inl err \<longrightarrow>
      Alert (message_or err ''Delete failed'')
        \<in> set (events_since w
              (snd (FilesGallery_handleDelete client forAccount account True r (g, w))))"
    by (simp add: FilesGallery_delete_error_alerted events_since_def emit_fields)
  have c7: "deleteFile client account (fileId r) = Inl err \<longrightarrow>
      Alert (message_or err ''Delete failed'')
        \<in> set (events_since w
              (snd (UploadsCard_handleDelete client defaultKey account True r (u, w))))"
    by (simp add: UploadsCard_delete_error_alerted events_since_def emit_fields)
  have c8: "createPublicLink client account (fileName r) = Inl err \<longrightarrow>
      Alert (message_or err ''Failed to create share link'')
        \<in> set (events_since w (snd (FilesGallery_generateShareLink client account r (g, w))))"
    by (simp add: share_error_alerted events_since_def emit_fields)
  have c9: "getBalance client account = Inl err \<longrightarrow>
      fst (AccountCard_loadBalance client account (c, w)) = c\<lparr>ac_loadingBalance := False\<rparr>
      \<and> events_since w (snd (AccountCard_loadBalance client account (c, w)))
        = [Remote (GetBalance account), ConsoleError ''Failed to load balance:'' err]
      \<and> AccountCard_balancePanel (fst (AccountCard_loadBalance client account (c, w)))
        = (case ac_balance c of None \<Rightarrow> FailedToLoad | Some b \<Rightarrow> ShowsBalance b)
      \<and> fst (UploadsCard_loadBalance client account (u, w)) = u\<lparr>ups_loadingBalance := False\<rparr>
      \<and> events_since w (snd (UploadsCard_loadBalance client account (u, w)))
        = [Remote (GetBalance account), ConsoleError ''Failed to load balance:'' err]
      \<and> UploadsCard_balancePanel (fst (UploadsCard_loadBalance client account (u, w)))
        = (case ups_balance u of None \<Rightarrow> FailedToLoad | Some b \<Rightarrow> ShowsBalance b)"
    by (simp add: AccountCard_balance_error_logged UploadsCard_balance_error_logged
        events_since_def emit_def AccountCard_balancePanel_def UploadsCard_balancePanel_def
        balancePanel_def)
  note c10 = loadFiles_never_alerts [of w client forAccount account g]
  show ?thesis
    by (intro conjI c1 c2 c4 c5 c6 c7 c8 c9 c10)
qed

theorem errors_surfaced_or_logged_witness:
  "valid (eight_chars ''Username'' ''alice123'') \<and> valid (eight_chars ''Password'' ''Passw0rd!1'')
   \<and> login failing_client ''alice123'' ''Passw0rd!1'' = Inl network_down
   \<and> known_code (code network_down)
   \<and> au_error (fst (App_AuthCard_handleSubmit (eight_chars ''Username'')
        (eight_chars ''Password'') failing_client ''alice123'' ''Passw0rd!1'' False
        (idle_auth_card, None, empty_world)))
      = Some ''Network error. Please check your connection and try again.''
   \<and> shown (au_error (fst (App_AuthCard_handleSubmit (eight_chars ''Username'')
        (eight_chars ''Password'') failing_client ''alice123'' ''Passw0rd!1'' True
        (idle_auth_card, None, empty_world))))
   \<and> uploadFile failing_client alice photo (name photo) = Inl network_down
   \<and> uc_error (fst (UploadCard_handleFileSelect failing_client alice True (Some photo)
        (idle_upload_card, empty_world))) = ''Network error''
   \<and> Alert ''Network error'' \<in> set (events_since empty_world
        (snd (FilesGallery_handleDownload failing_client alice photo_record
          (idle_gallery, empty_world))))
   \<and> Alert ''Network error'' \<in> set (events_since empty_world
        (snd (FilesGallery_handleDelete failing_client UploadCard_fileStorage alice True
          photo_record (idle_gallery, empty_world))))
   \<and> Alert ''Network error'' \<in> set (events_since empty_world
        (snd (UploadsCard_handleDelete failing_client ''k'' alice True
          photo_record (idle_uploads_card, empty_world))))
   \<and> Alert ''Network error'' \<in> set (events_since empty_world
        (snd (FilesGallery_generateShareLink failing_client alice photo_record
          (idle_gallery, empty_world))))
   \<and> getBalance failing_client alice = Inl network_down
   \<and> AccountCard_balancePanel (fst (AccountCard_loadBalance failing_client alice
        (idle_account_card, empty_world))) = FailedToLoad
   \<and> events_since empty_world (snd (AccountCard_loadBalance failing_client alice
        (idle_account_card, empty_world)))
      = [Remote (GetBalance alice), ConsoleError ''Failed to load balance:'' network_down]
   \<and> UploadsCard_balancePanel (fst (UploadsCard_loadBalance failing_client alice
        (idle_uploads_card, empty_world))) = FailedToLoad"
proof -
  note t = errors_surfaced_or_logged [where validateUsername = "eight_chars ''Username''"
      and user = "''alice123''" and validatePassword = "eight_chars ''Password''"
      and pass = "''Passw0rd!1''" and client = failing_client and err = network_down
      and s = idle_auth_card and a = None and w = empty_world and account = alice
      and picked = photo and m = True and us = idle_upload_card and r = photo_record
      and g = idle_gallery and u = idle_uploads_card and forAccount = UploadCard_fileStorage
      and defaultKey = "''k''" and c = idle_account_card]
  have v: "valid (eight_chars ''Username'' ''alice123'')
      \<and> valid (eight_chars ''Password'' ''Passw0rd!1'')"
    by (simp add: eight_chars_def)
  have f: "login failing_client ''alice123'' ''Passw0rd!1'' = Inl network_down"
    "createAccount failing_client ''alice123'' ''Passw0rd!1'' = Inl network_down"
    "uploadFile failing_client alice photo (name photo) = Inl network_down"
    "downloadFile failing_client alice (fileName photo_record) = Inl network_down"
    "deleteFile failing_client alice (fileName photo_record) = Inl network_down"
    "deleteFile failing_client alice (fileId photo_record) = Inl network_down"
    "createPublicLink failing_client alice (fileName photo_record) = Inl network_down"
    "getBalance failing_client alice = Inl network_down"
    by (simp_all add: failing_client_def)
  have k: "known_code (code network_down)"
    by (simp add: network_down_def)
  have m: "authErrorMessage network_down
      = Some ''Network error. Please check your connection and try again.''"
    "message_or network_down ''Upload failed'' = ''Network error''"
    "message_or network_down ''Download failed'' = ''Network error''"
    "message_or network_down ''Delete failed'' = ''Network error''"
    "message_or network_down ''Failed to create share link'' = ''Network error''"
    by (simp_all add: authErrorMessage_def message_or_def network_down_def)
  from t v f have 1: "au_error (fst (App_AuthCard_handleSubmit (eight_chars ''Username'')
        (eight_chars ''Password'') failing_client ''alice123'' ''Passw0rd!1'' False
        (idle_auth_card, None, empty_world))) = authErrorMessage network_down"
    by blast
  from t v f k have 2: "shown (au_error (fst (App_AuthCard_handleSubmit
        (eight_chars ''Username'') (eight_chars ''Password'') failing_client ''alice123''
        ''Passw0rd!1'' True (idle_auth_card, None, empty_world))))"
    by blast
  from t f have 3: "uc_error (fst (UploadCard_handleFileSelect failing_client alice True
        (Some photo) (idle_upload_card, empty_world))) = message_or network_down ''Upload failed''"
    and 4: "Alert (message_or network_down ''Download failed'') \<in> set (events_since empty_world
        (snd (FilesGallery_handleDownload failing_client alice photo_record
          (idle_gallery, empty_world))))"
    and 5: "Alert (message_or network_down ''Delete failed'') \<in> set (events_since empty_world
        (snd (FilesGallery_handleDelete failing_client UploadCard_fileStorage alice True
          photo_record (idle_gallery, empty_world))))"
    and 6: "Alert (message_or network_down ''Delete failed'') \<in> set (events_since empty_world
        (snd (UploadsCard_handleDelete failing_client ''k'' alice True
          photo_record (idle_uploads_card, empty_world))))"
    and 7: "Alert (message_or network_down ''Failed to create share link'')
        \<in> set (events_since empty_world
        (snd (FilesGallery_generateShareLink failing_client alice photo_record
          (idle_gallery, empty_world))))"
    by blast+
  from t f have 8: "AccountCard_balancePanel (fst (AccountCard_loadBalance failing_client alice
        (idle_account_card, empty_world)))
        = (case ac_balance idle_account_card of None \<Rightarrow> FailedToLoad
           | Some b \<Rightarrow> ShowsBalance b)"
    and 9: "events_since empty_world (snd (AccountCard_loadBalance failing_client alice
        (idle_account_card, empty_world)))
      = [Remote (GetBalance alice), ConsoleError ''Failed to load balance:'' network_down]"
    and 10: "UploadsCard_balancePanel (fst (UploadsCard_loadBalance failing_client alice
        (idle_uploads_card, empty_world)))
        = (case ups_balance idle_uploads_card of None \<Rightarrow> FailedToLoad
           | Some b \<Rightarrow> ShowsBalance b)"
    by blast+
  have b: "ac_balance idle_account_card = None" "ups_balance idle_uploads_card = None"
    by (simp_all add: idle_account_card_def idle_uploads_card_def)
  from v f(1,3,8) k 1 2 3 4 5 6 7 8 9 10 show ?thesis
    by (simp add: m b)
qed

text \<open>
  The claim as stated, with the preview cache as the only exception: alice's balance was
  loaded, the next balance query (the one the \<^verbatim>\<open>fileUploaded\<close> listener starts) is
  rejected, \<^verbatim>\<open>AccountCard.loadBalance\<close> writes it to the console, and the component's
  state and its balance panel are what they were before the query.
\<close>

theorem stale_balance_counterexample:
  "getBalance failing_client alice = Inl network_down
   \<and> AccountCard_balancePanel (fst loaded_account_card)
       = ShowsBalance \<lparr>pipe = 1, sol = 2, publicKey = ''pk''\<rparr>
   \<and> fst (AccountCard_loadBalance failing_client alice loaded_account_card)
       = fst loaded_account_card
   \<and> AccountCard_balancePanel (fst (AccountCard_loadBalance failing_client alice
         loaded_account_card))
       = ShowsBalance \<lparr>pipe = 1, sol = 2, publicKey = ''pk''\<rparr>
   \<and> events_since (snd loaded_account_card)
         (snd (AccountCard_loadBalance failing_client alice loaded_account_card))
       = [Remote (GetBalance alice), ConsoleError ''Failed to load balance:'' network_down]"
  by code_simp

end
